theory Spec2Isabelle
  imports Main "HOL-Library.Sublist"
begin

section \<open>The model-compilation pipeline of \<open>compile.py\<close>\<close>

text \<open>
  The script has four functions: \<open>download_model\<close>, \<open>export_to_onnx\<close>,
  \<open>convert_onnx_to_engine\<close> and \<open>main\<close>. Everything they do is an effect: printing,
  asking the filesystem, calling the Ultralytics library, running \<open>trtexec\<close> as a
  subprocess, and leaving the process with \<open>sys.exit\<close>. The embedding threads a state
  (the filesystem and the trace of everything that happened) through each function and
  takes the behaviour of the outside world as a parameter \<open>w\<close>: the library calls and the
  subprocess answer whatever \<open>w\<close> says, given the whole state at the moment of the call.
  Every theorem below holds for every such world.

  What the embedding fixes about the outside world, and nothing more:
  \<^item> a path names an entry by its parsed form; two different parsed paths are two
    entries (no symbolic links, no resolution of \<open>..\<close>);
  \<^item> \<open>print\<close> and \<open>Path.exists\<close> do not fail, and \<open>exists\<close> is true of files and
    directories alike;
  \<^item> a library call or a subprocess call that fails raises an exception of class
    \<open>Exception\<close>;
  \<^item> \<open>model.to(device)\<close> that returns has moved the model object in place;
  \<^item> \<open>model.save(path)\<close> that returns has written a file at \<open>path\<close>;
  \<^item> a rename that returns has moved the entry; \<open>mkdir\<close> on a directory changes nothing.
  Loading a model, the export call and the subprocess may change the filesystem in any
  way.
\<close>

subsection \<open>Paths (\<open>pathlib.Path\<close> on POSIX)\<close>

text \<open>
  A path is its root (\<open>''''\<close>, \<open>''/''\<close> or \<open>''//''\<close>) and its parts, as \<open>pathlib\<close> keeps
  them after parsing: empty parts and the parts \<open>.\<close> are dropped, \<open>..\<close> is kept.
\<close>

datatype path = Path (path_root: string) (path_parts: "string list")

fun split_on :: "char \<Rightarrow> string \<Rightarrow> string list" where
  "split_on c [] = [[]]"
| "split_on c (x # xs) =
     (if x = c then [] # split_on c xs
      else (case split_on c xs of
              [] \<Rightarrow> [[x]]
            | y # ys \<Rightarrow> (x # y) # ys))"

definition splitroot :: "string \<Rightarrow> string \<times> string" where
  "splitroot p =
     (if take 1 p \<noteq> ''/'' then ('''', p)
      else if take 1 (drop 1 p) \<noteq> ''/'' \<or> take 1 (drop 2 p) = ''/'' then (''/'', drop 1 p)
      else (''//'', drop 2 p))"

definition PurePath :: "string \<Rightarrow> path" where
  "PurePath s =
     (case splitroot s of
        (r, rel) \<Rightarrow> Path r (filter (\<lambda>x. x \<noteq> [] \<and> x \<noteq> ''.'') (split_on (CHR ''/'') rel)))"

text \<open>\<open>self / other\<close> for a string \<open>other\<close>: an absolute right operand replaces the left one.\<close>

definition joinpath :: "path \<Rightarrow> string \<Rightarrow> path" where
  "joinpath p s =
     (case PurePath s of
        Path r2 ps2 \<Rightarrow> if r2 \<noteq> '''' then Path r2 ps2 else Path (path_root p) (path_parts p @ ps2))"

fun join_sep :: "string \<Rightarrow> string list \<Rightarrow> string" where
  "join_sep sep [] = []"
| "join_sep sep [x] = x"
| "join_sep sep (x # y # ys) = x @ sep @ join_sep sep (y # ys)"

text \<open>\<open>str(path)\<close>, which is what an f-string prints for a path.\<close>

definition str_path :: "path \<Rightarrow> string" where
  "str_path p =
     (let s = path_root p @ join_sep ''/'' (path_parts p) in if s = [] then ''.'' else s)"

definition parent :: "path \<Rightarrow> path" where
  "parent p = Path (path_root p) (butlast (path_parts p))"

definition ancestors_or_self :: "path \<Rightarrow> path list" where
  "ancestors_or_self p = map (Path (path_root p)) (prefixes (path_parts p))"

subsection \<open>The filesystem, the trace and the outside world\<close>

datatype node = File string | Dir

type_synonym filesystem = "path \<Rightarrow> node option"

text \<open>An exception is modelled by its message, \<open>str(e)\<close>: the script uses nothing else of it.\<close>

type_synonym exn = string

text \<open>
  The in-memory model object of the library. \<open>device\<close> is the execution context its
  tensors live on; \<open>weights\<close> stands for the rest of it.
\<close>

record model =
  device :: string
  weights :: string

record export_kwargs =
  format :: string
  simplify :: bool
  opset :: int
  verbose :: bool

record completed_process =
  returncode :: int
  stdout :: string
  stderr :: string

text \<open>
  The trace records, in order, every print and every call that leaves the script,
  together with what the call answered (\<open>None\<close> or \<open>Inr\<close>: it returned; \<open>Some e\<close> or
  \<open>Inl e\<close>: it raised \<open>e\<close>). The three \<open>Enter\<close> events mark the entry into a stage
  function with its arguments and the filesystem as it was at that moment; they are
  bookkeeping of the model and correspond to no statement of the script.
\<close>

datatype event =
    Print string
  | Mkdir path "exn option"
  | Enter_download_model string path filesystem
  | Enter_export_to_onnx path path filesystem
  | Enter_convert_onnx_to_engine path path string filesystem
  | YOLO_new string "exn + model"
  | Model_to model string "exn option"
  | Model_save model path "exn option"
  | Model_export model export_kwargs "exn + string \<times> filesystem"
  | Rename path path "exn option"
  | Subprocess_run "string list" bool bool "exn + completed_process"

record state =
  fs :: filesystem
  trace :: "event list"

text \<open>
  The outside world. Each field answers one kind of call from the state at the moment of
  the call and the arguments:
  \<^item> \<open>w_mkdir\<close>: whether creating a missing directory is refused;
  \<^item> \<open>w_YOLO\<close>: \<open>YOLO(arg)\<close>, which may download files, or raise;
  \<^item> \<open>w_to\<close>: whether \<open>model.to(device)\<close> raises;
  \<^item> \<open>w_save\<close>: the bytes \<open>model.save(path)\<close> writes, or the exception it raises;
  \<^item> \<open>w_export\<close>: \<open>model.export(...)\<close>: the path string it returns and the filesystem
    it leaves, or the exception it raises;
  \<^item> \<open>w_rename\<close>: whether the operating system refuses the rename;
  \<^item> \<open>w_run\<close>: \<open>subprocess.run(args, capture_output=True, text=True)\<close>: the completed
    process and the filesystem it leaves, or the exception raised (for instance when the
    executable is not on the search path).
\<close>

record env =
  w_mkdir :: "state \<Rightarrow> path \<Rightarrow> exn option"
  w_YOLO :: "state \<Rightarrow> string \<Rightarrow> exn + model \<times> filesystem"
  w_to :: "state \<Rightarrow> model \<Rightarrow> string \<Rightarrow> exn option"
  w_save :: "state \<Rightarrow> model \<Rightarrow> path \<Rightarrow> exn + string"
  w_export :: "state \<Rightarrow> model \<Rightarrow> export_kwargs \<Rightarrow> exn + string \<times> filesystem"
  w_rename :: "state \<Rightarrow> path \<Rightarrow> path \<Rightarrow> exn option"
  w_run :: "state \<Rightarrow> string list \<Rightarrow> exn + completed_process \<times> filesystem"

subsection \<open>Control flow: returning, raising, leaving the process\<close>

text \<open>
  \<open>Raise\<close> is an exception of class \<open>Exception\<close>; \<open>Exit n\<close> is \<open>SystemExit(n)\<close>, which
  \<open>except Exception\<close> does not catch.
\<close>

datatype 'a result = Normal 'a | Raise exn | Exit int

type_synonym 'a prog = "state \<Rightarrow> 'a result \<times> state"

definition returnP :: "'a \<Rightarrow> 'a prog" where
  "returnP x st = (Normal x, st)"

definition bindP :: "'a prog \<Rightarrow> ('a \<Rightarrow> 'b prog) \<Rightarrow> 'b prog" where
  "bindP m f st =
     (case m st of
        (Normal x, st') \<Rightarrow> f x st'
      | (Raise e, st') \<Rightarrow> (Raise e, st')
      | (Exit n, st') \<Rightarrow> (Exit n, st'))"

definition seqP :: "'a prog \<Rightarrow> 'b prog \<Rightarrow> 'b prog" where
  "seqP m k = bindP m (\<lambda>_. k)"

definition try_except :: "'a prog \<Rightarrow> (exn \<Rightarrow> 'a prog) \<Rightarrow> 'a prog" where
  "try_except body handler st =
     (case body st of
        (Raise e, st') \<Rightarrow> handler e st'
      | (Normal x, st') \<Rightarrow> (Normal x, st')
      | (Exit n, st') \<Rightarrow> (Exit n, st'))"

definition sys_exit :: "int \<Rightarrow> 'a prog" where
  "sys_exit n st = (Exit n, st)"

definition emit :: "event \<Rightarrow> state \<Rightarrow> state" where
  "emit e st = st\<lparr>trace := trace st @ [e]\<rparr>"

definition print :: "string \<Rightarrow> unit prog" where
  "print s st = (Normal (), emit (Print s) st)"

definition enter :: "(filesystem \<Rightarrow> event) \<Rightarrow> unit prog" where
  "enter ev st = (Normal (), emit (ev (fs st)) st)"

text \<open>The exit status of the process when the script's top level ends with the given result.\<close>

fun exit_status :: "'a result \<Rightarrow> int" where
  "exit_status (Normal x) = 0"
| "exit_status (Exit n) = n"
| "exit_status (Raise e) = 1"

subsection \<open>The calls that leave the script\<close>

definition path_exists :: "path \<Rightarrow> bool prog" where
  "path_exists p st = (Normal (fs st p \<noteq> None), st)"

text \<open>
  \<open>path.mkdir(parents=True, exist_ok=True)\<close>: nothing happens when the path is a
  directory; \<open>FileExistsError\<close> when it is a file; otherwise the path and its missing
  ancestors become directories unless the world refuses.
\<close>

definition mkdir_fs :: "path \<Rightarrow> filesystem \<Rightarrow> filesystem" where
  "mkdir_fs p f = fold (\<lambda>q g. if g q = None then g(q \<mapsto> Dir) else g) (ancestors_or_self p) f"

definition mkdir :: "env \<Rightarrow> path \<Rightarrow> unit prog" where
  "mkdir w p st =
     (case fs st p of
        Some Dir \<Rightarrow> (Normal (), emit (Mkdir p None) st)
      | Some (File c) \<Rightarrow>
          (let e = ''[Errno 17] File exists: '' @ [CHR 0x27] @ str_path p @ [CHR 0x27]
           in (Raise e, emit (Mkdir p (Some e)) st))
      | None \<Rightarrow>
          (case w_mkdir w st p of
             Some e \<Rightarrow> (Raise e, emit (Mkdir p (Some e)) st)
           | None \<Rightarrow> (Normal (), emit (Mkdir p None) (st\<lparr>fs := mkdir_fs p (fs st)\<rparr>))))"

definition YOLO :: "env \<Rightarrow> string \<Rightarrow> model prog" where
  "YOLO w arg st =
     (case w_YOLO w st arg of
        Inl e \<Rightarrow> (Raise e, emit (YOLO_new arg (Inl e)) st)
      | Inr (m, f) \<Rightarrow> (Normal m, emit (YOLO_new arg (Inr m)) (st\<lparr>fs := f\<rparr>)))"

text \<open>\<open>model.to(dev)\<close> moves the model in place; the model returns the moved object.\<close>

definition model_to :: "env \<Rightarrow> model \<Rightarrow> string \<Rightarrow> model prog" where
  "model_to w m dev st =
     (case w_to w st m dev of
        Some e \<Rightarrow> (Raise e, emit (Model_to m dev (Some e)) st)
      | None \<Rightarrow> (Normal (m\<lparr>device := dev\<rparr>), emit (Model_to m dev None) st))"

text \<open>\<open>model.save(path)\<close>: when it returns, a file is at \<open>path\<close>.\<close>

definition model_save :: "env \<Rightarrow> model \<Rightarrow> path \<Rightarrow> unit prog" where
  "model_save w m p st =
     (case w_save w st m p of
        Inl e \<Rightarrow> (Raise e, emit (Model_save m p (Some e)) st)
      | Inr bytes \<Rightarrow>
          (Normal (), emit (Model_save m p None) (st\<lparr>fs := (fs st)(p \<mapsto> File bytes)\<rparr>)))"

definition model_export :: "env \<Rightarrow> model \<Rightarrow> export_kwargs \<Rightarrow> string prog" where
  "model_export w m kw st =
     (case w_export w st m kw of
        Inl e \<Rightarrow> (Raise e, emit (Model_export m kw (Inl e)) st)
      | Inr (out, f) \<Rightarrow> (Normal out, emit (Model_export m kw (Inr (out, f))) (st\<lparr>fs := f\<rparr>)))"

text \<open>
  \<open>src.rename(dst)\<close>: when the operating system does not refuse, the entry at \<open>src\<close> is
  at \<open>dst\<close> afterwards (replacing what was there) and \<open>src\<close> is gone; renaming a path to
  itself changes nothing.
\<close>

definition rename_fs :: "path \<Rightarrow> path \<Rightarrow> filesystem \<Rightarrow> filesystem" where
  "rename_fs src dst f =
     (if src = dst then f else (f(src := None))(dst := f src))"

definition rename :: "env \<Rightarrow> path \<Rightarrow> path \<Rightarrow> unit prog" where
  "rename w src dst st =
     (if fs st src = None then
        (let e = ''[Errno 2] No such file or directory''
         in (Raise e, emit (Rename src dst (Some e)) st))
      else
        (case w_rename w st src dst of
           Some e \<Rightarrow> (Raise e, emit (Rename src dst (Some e)) st)
         | None \<Rightarrow> (Normal (), emit (Rename src dst None) (st\<lparr>fs := rename_fs src dst (fs st)\<rparr>))))"

text \<open>\<open>subprocess.run(args, capture_output=True, text=True)\<close>: returns when the process has ended.\<close>

definition subprocess_run :: "env \<Rightarrow> string list \<Rightarrow> bool \<Rightarrow> bool \<Rightarrow> completed_process prog" where
  "subprocess_run w args capture_output text st =
     (case w_run w st args of
        Inl e \<Rightarrow> (Raise e, emit (Subprocess_run args capture_output text (Inl e)) st)
      | Inr (cp, f) \<Rightarrow>
          (Normal cp, emit (Subprocess_run args capture_output text (Inr cp)) (st\<lparr>fs := f\<rparr>)))"

subsection \<open>The stage functions\<close>

definition download_model :: "env \<Rightarrow> string \<Rightarrow> path \<Rightarrow> path prog" where
  "download_model w model_name save_path =
     seqP (enter (Enter_download_model model_name save_path))
    (try_except
      (seqP (print (''Descargando el modelo '' @ model_name @ ''...''))
      (bindP (YOLO w model_name) (\<lambda>model.
       bindP (model_to w model ''cpu'') (\<lambda>model.
       let pt_path = joinpath save_path (model_name @ ''.pt'') in
       seqP (model_save w model pt_path)
      (seqP (print (''Modelo descargado y guardado en '' @ str_path pt_path))
      (returnP pt_path))))))
      (\<lambda>e. seqP (print (''Error al descargar el modelo: '' @ e)) (sys_exit 1)))"

text \<open>
  The dictionary \<open>export_options\<close> that the script builds before the export call is never
  read; the call passes its four keyword arguments as literals.
\<close>

definition export_to_onnx :: "env \<Rightarrow> path \<Rightarrow> path \<Rightarrow> unit prog" where
  "export_to_onnx w pt_model_path onnx_model_path =
     seqP (enter (Enter_export_to_onnx pt_model_path onnx_model_path))
    (try_except
      (seqP (print (''Exportando el modelo '' @ str_path pt_model_path @ '' a ONNX...''))
      (bindP (YOLO w (str_path pt_model_path)) (\<lambda>model.
       seqP (model_export w model
               \<lparr>format = ''onnx'', simplify = True, opset = 14, verbose = False\<rparr>)
      (let exported_onnx = PurePath ''yolov8n.onnx'' in
       bindP (path_exists exported_onnx) (\<lambda>b.
         if b then
           seqP (rename w exported_onnx onnx_model_path)
                (print (''Modelo exportado a ONNX y guardado en '' @ str_path onnx_model_path))
         else
           seqP (print (''Exportaci'' @ [CHR 0xF3] @ ''n a ONNX fall'' @ [CHR 0xF3]
                        @ '': archivo .onnx no encontrado.''))
                (sys_exit 1))))))
      (\<lambda>e. seqP (print (''Error al exportar a ONNX: '' @ e)) (sys_exit 1)))"

definition convert_onnx_to_engine :: "env \<Rightarrow> path \<Rightarrow> path \<Rightarrow> string \<Rightarrow> unit prog" where
  "convert_onnx_to_engine w onnx_model_path engine_path precision =
     seqP (enter (Enter_convert_onnx_to_engine onnx_model_path engine_path precision))
    (try_except
      (seqP (print (''Convirtiendo '' @ str_path onnx_model_path
                    @ '' a TensorRT .engine con precisi'' @ [CHR 0xF3] @ ''n '' @ precision @ ''...''))
      (bindP (subprocess_run w [''trtexec'', ''--version''] True True) (\<lambda>result.
       seqP (if returncode result \<noteq> 0 then
               seqP (print (''Error: trtexec no est'' @ [CHR 0xE1] @ '' disponible. Aseg''
                            @ [CHR 0xFA] @ ''rate de que TensorRT est'' @ [CHR 0xE9]
                            @ '' instalado y que trtexec est'' @ [CHR 0xE9] @ '' en tu PATH.''))
                    (sys_exit 1)
             else returnP ())
      (let trtexec_cmd =
             [''trtexec'',
              ''--onnx='' @ str_path onnx_model_path,
              ''--saveEngine='' @ str_path engine_path,
              ''--'' @ precision] in
       seqP (print (''Ejecutando comando: '' @ join_sep '' '' trtexec_cmd))
      (bindP (subprocess_run w trtexec_cmd True True) (\<lambda>process.
       seqP (if returncode process \<noteq> 0 then
               seqP (print (''Error en trtexec:'' @ [CHR 0x0A] @ stderr process)) (sys_exit 1)
             else returnP ())
      (print (''Conversi'' @ [CHR 0xF3] @ ''n a TensorRT .engine completada y guardada en ''
              @ str_path engine_path))))))))
      (\<lambda>e. seqP (print (''Error al convertir a TensorRT: '' @ e)) (sys_exit 1)))"

subsection \<open>The controller\<close>

text \<open>
  \<open>main_on\<close> is the body of \<open>main\<close> with its two local constants, the model name and the
  output directory, as parameters; \<open>main\<close> is the script's own instance.
\<close>

definition main_on :: "env \<Rightarrow> string \<Rightarrow> path \<Rightarrow> unit prog" where
  "main_on w model_name save_directory =
     seqP (mkdir w save_directory)
    (let pt_model_path = joinpath save_directory (model_name @ ''.pt'');
         onnx_model_path = joinpath save_directory (model_name @ ''.onnx'');
         engine_model_path = joinpath save_directory (model_name @ ''.engine'') in
     seqP (bindP (path_exists pt_model_path) (\<lambda>b.
             if \<not> b then seqP (download_model w model_name save_directory) (returnP ())
             else print (''El modelo PyTorch ya existe en '' @ str_path pt_model_path
                         @ ''. Saltando descarga.'')))
    (seqP (bindP (path_exists onnx_model_path) (\<lambda>b.
             if \<not> b then export_to_onnx w pt_model_path onnx_model_path
             else print (''El modelo ONNX ya existe en '' @ str_path onnx_model_path
                         @ ''. Saltando exportaci'' @ [CHR 0xF3] @ ''n.'')))
          (bindP (path_exists engine_model_path) (\<lambda>b.
             if \<not> b then convert_onnx_to_engine w onnx_model_path engine_model_path ''fp16''
             else print (''El modelo TensorRT .engine ya existe en '' @ str_path engine_model_path
                         @ ''. Saltando conversi'' @ [CHR 0xF3] @ ''n.'')))))"

definition main :: "env \<Rightarrow> unit prog" where
  "main w = main_on w ''yolov8n'' (PurePath ''./models'')"

subsection \<open>Reading a run\<close>

text \<open>What a program returns from a state, what it adds to the trace, and the filesystem it leaves.\<close>

definition result_of :: "'a prog \<Rightarrow> state \<Rightarrow> 'a result" where
  "result_of m st = fst (m st)"

definition events_of :: "'a prog \<Rightarrow> state \<Rightarrow> event list" where
  "events_of m st = drop (length (trace st)) (trace (snd (m st)))"

definition fs_after :: "'a prog \<Rightarrow> state \<Rightarrow> filesystem" where
  "fs_after m st = fs (snd (m st))"

text \<open>Projections of a trace: the stage entries, and the arguments of each kind of call.\<close>

fun enters :: "event list \<Rightarrow> event list" where
  "enters [] = []"
| "enters (Enter_download_model n d f # es) = Enter_download_model n d f # enters es"
| "enters (Enter_export_to_onnx p q f # es) = Enter_export_to_onnx p q f # enters es"
| "enters (Enter_convert_onnx_to_engine p q c f # es) =
     Enter_convert_onnx_to_engine p q c f # enters es"
| "enters (e # es) = enters es"

fun saved_paths :: "event list \<Rightarrow> path list" where
  "saved_paths [] = []"
| "saved_paths (Model_save m p x # es) = p # saved_paths es"
| "saved_paths (e # es) = saved_paths es"

fun renames :: "event list \<Rightarrow> (path \<times> path) list" where
  "renames [] = []"
| "renames (Rename a b x # es) = (a, b) # renames es"
| "renames (e # es) = renames es"

fun export_configs :: "event list \<Rightarrow> export_kwargs list" where
  "export_configs [] = []"
| "export_configs (Model_export m kw x # es) = kw # export_configs es"
| "export_configs (e # es) = export_configs es"

fun subprocess_calls :: "event list \<Rightarrow> (string list \<times> bool \<times> bool) list" where
  "subprocess_calls [] = []"
| "subprocess_calls (Subprocess_run args c t r # es) = (args, c, t) # subprocess_calls es"
| "subprocess_calls (e # es) = subprocess_calls es"

text \<open>
  What holds of a stage entry during a run of the controller for model name \<open>n\<close> and
  directory \<open>d\<close>: the arguments are the controller's three paths, the stage's input is
  present in the filesystem of that moment and its output is not.
\<close>

fun entry_ok :: "string \<Rightarrow> path \<Rightarrow> event \<Rightarrow> bool" where
  "entry_ok n d (Enter_download_model a b f) =
     (a = n \<and> b = d \<and> f (joinpath d (n @ ''.pt'')) = None)"
| "entry_ok n d (Enter_export_to_onnx p q f) =
     (p = joinpath d (n @ ''.pt'') \<and> q = joinpath d (n @ ''.onnx'')
      \<and> f p \<noteq> None \<and> f q = None)"
| "entry_ok n d (Enter_convert_onnx_to_engine p q c f) =
     (p = joinpath d (n @ ''.onnx'') \<and> q = joinpath d (n @ ''.engine'') \<and> c = ''fp16''
      \<and> f p \<noteq> None \<and> f q = None)"
| "entry_ok n d e = True"

definition fixed_kwargs :: export_kwargs where
  "fixed_kwargs = \<lparr>format = ''onnx'', simplify = True, opset = 14, verbose = False\<rparr>"

definition stage_events_ok :: "string \<Rightarrow> path \<Rightarrow> event list \<Rightarrow> bool" where
  "stage_events_ok n d evs =
     (list_all (entry_ok n d) (enters evs)
      \<and> set (saved_paths evs) \<subseteq> {joinpath d (n @ ''.pt'')}
      \<and> set (renames evs) \<subseteq> {(PurePath ''yolov8n.onnx'', joinpath d (n @ ''.onnx''))}
      \<and> set (export_configs evs) \<subseteq> {fixed_kwargs})"

text \<open>
  A filesystem is hierarchical when every entry lies in a directory: the parent of each
  present path is present as a directory.
\<close>

definition hierarchical :: "filesystem \<Rightarrow> bool" where
  "hierarchical f = (\<forall>p. f p \<noteq> None \<longrightarrow> f (parent p) = Some Dir)"

subsection \<open>Some worlds and filesystems\<close>

text \<open>
  A world in which every call succeeds: the library loads a model on an accelerator,
  the exporter writes \<open>yolov8n.onnx\<close> into the working directory, \<open>trtexec\<close> answers 0.
\<close>

definition world_ok :: env where
  "world_ok =
     \<lparr>w_mkdir = (\<lambda>st p. None),
      w_YOLO = (\<lambda>st arg. Inr (\<lparr>device = ''cuda:0'', weights = ''w''\<rparr>, fs st)),
      w_to = (\<lambda>st m dev. None),
      w_save = (\<lambda>st m p. Inr (''PK'' @ weights m)),
      w_export = (\<lambda>st m kw.
         Inr (''yolov8n.onnx'', (fs st)(PurePath ''yolov8n.onnx'' \<mapsto> File ''graph''))),
      w_rename = (\<lambda>st a b. None),
      w_run = (\<lambda>st args. Inr (\<lparr>returncode = 0, stdout = '''', stderr = ''''\<rparr>, fs st))\<rparr>"

text \<open>The model provider cannot be reached.\<close>

definition world_offline :: env where
  "world_offline = world_ok\<lparr>w_YOLO := (\<lambda>st arg. Inl ''no network'')\<rparr>"

text \<open>The version probe of \<open>trtexec\<close> answers 127.\<close>

definition world_no_tool :: env where
  "world_no_tool =
     world_ok\<lparr>w_run := (\<lambda>st args.
        Inr (\<lparr>returncode = 127, stdout = '''', stderr = ''trtexec: not found''\<rparr>, fs st))\<rparr>"

text \<open>The probe answers 0 and the compilation answers 1 with a message on standard error.\<close>

definition world_bad_compile :: env where
  "world_bad_compile =
     world_ok\<lparr>w_run := (\<lambda>st args.
        if args = [''trtexec'', ''--version'']
        then Inr (\<lparr>returncode = 0, stdout = ''v8'', stderr = ''''\<rparr>, fs st)
        else Inr (\<lparr>returncode = 1, stdout = '''', stderr = ''parse error''\<rparr>, fs st))\<rparr>"

text \<open>The export call raises.\<close>

definition world_export_raises :: env where
  "world_export_raises = world_ok\<lparr>w_export := (\<lambda>st m kw. Inl ''export failed'')\<rparr>"

text \<open>The exporter names its output after another model, \<open>yolov8s.onnx\<close>.\<close>

definition world_export_elsewhere :: env where
  "world_export_elsewhere =
     world_ok\<lparr>w_export := (\<lambda>st m kw.
        Inr (''yolov8s.onnx'', (fs st)(PurePath ''yolov8s.onnx'' \<mapsto> File ''graph'')))\<rparr>"

definition start :: "filesystem \<Rightarrow> state" where
  "start f = \<lparr>fs = f, trace = []\<rparr>"

text \<open>An empty working directory.\<close>

definition fs_fresh :: filesystem where
  "fs_fresh = map_of [(Path '''' [], Dir)]"

text \<open>All three artifacts are present.\<close>

definition fs_cached :: filesystem where
  "fs_cached = map_of
     [(Path '''' [], Dir),
      (Path '''' [''models''], Dir),
      (Path '''' [''models'', ''yolov8n.pt''], File ''weights''),
      (Path '''' [''models'', ''yolov8n.onnx''], File ''graph''),
      (Path '''' [''models'', ''yolov8n.engine''], File ''plan'')]"

text \<open>The serialized model is present and empty; nothing else is.\<close>

definition fs_empty_pt :: filesystem where
  "fs_empty_pt = map_of
     [(Path '''' [], Dir),
      (Path '''' [''models''], Dir),
      (Path '''' [''models'', ''yolov8n.pt''], File '''')]"

text \<open>An earlier export left \<open>yolov8n.onnx\<close> in the working directory.\<close>

definition fs_stale :: filesystem where
  "fs_stale = map_of
     [(Path '''' [], Dir),
      (Path '''' [''models''], Dir),
      (Path '''' [''models'', ''yolov8s.pt''], File ''weights''),
      (Path '''' [''yolov8n.onnx''], File ''stale'')]"

text \<open>The serialized model and the interchange artifact are present, the engine is not.\<close>

definition fs_no_engine :: filesystem where
  "fs_no_engine = map_of
     [(Path '''' [], Dir),
      (Path '''' [''models''], Dir),
      (Path '''' [''models'', ''yolov8n.pt''], File ''weights''),
      (Path '''' [''models'', ''yolov8n.onnx''], File ''graph'')]"

text \<open>What a trace shows on the terminal: the printed lines, in order.\<close>

fun printed :: "event list \<Rightarrow> string list" where
  "printed [] = []"
| "printed (Print s # es) = s # printed es"
| "printed (e # es) = printed es"

section \<open>Properties\<close>

subsection \<open>Auxiliary facts\<close>

lemmas prog_defs = returnP_def bindP_def seqP_def try_except_def sys_exit_def emit_def
  print_def enter_def path_exists_def

lemmas call_defs = mkdir_def YOLO_def model_to_def model_save_def model_export_def
  rename_def subprocess_run_def

lemmas run_defs = result_of_def events_of_def fs_after_def

lemmas stage_defs = download_model_def export_to_onnx_def convert_onnx_to_engine_def

lemmas path_defs = PurePath_def splitroot_def joinpath_def str_path_def

lemmas world_defs = world_ok_def world_offline_def world_no_tool_def world_bad_compile_def
  world_export_raises_def world_export_elsewhere_def start_def

lemma enters_append [simp]: "enters (xs @ ys) = enters xs @ enters ys"
  by (induction xs rule: enters.induct) auto

lemma saved_paths_append [simp]: "saved_paths (xs @ ys) = saved_paths xs @ saved_paths ys"
  by (induction xs rule: saved_paths.induct) auto

lemma renames_append [simp]: "renames (xs @ ys) = renames xs @ renames ys"
  by (induction xs rule: renames.induct) auto

lemma export_configs_append [simp]:
  "export_configs (xs @ ys) = export_configs xs @ export_configs ys"
  by (induction xs rule: export_configs.induct) auto

lemma subprocess_calls_append [simp]:
  "subprocess_calls (xs @ ys) = subprocess_calls xs @ subprocess_calls ys"
  by (induction xs rule: subprocess_calls.induct) auto

lemma stage_events_ok_append:
  "stage_events_ok n d (xs @ ys) = (stage_events_ok n d xs \<and> stage_events_ok n d ys)"
  by (auto simp: stage_events_ok_def)

text \<open>The three paths of the script's own run.\<close>

lemma main_paths:
  "PurePath ''./models'' = Path '''' [''models'']"
  "PurePath ''yolov8n.onnx'' = Path '''' [''yolov8n.onnx'']"
  "PurePath ''models'' = Path '''' [''models'']"
  "PurePath ''models/yolov8n.pt'' = Path '''' [''models'', ''yolov8n.pt'']"
  "PurePath ''models/yolov8n.onnx'' = Path '''' [''models'', ''yolov8n.onnx'']"
  "PurePath ''models/yolov8n.engine'' = Path '''' [''models'', ''yolov8n.engine'']"
  "joinpath (Path '''' [''models'']) ''yolov8n.pt'' = Path '''' [''models'', ''yolov8n.pt'']"
  "joinpath (Path '''' [''models'']) ''yolov8n.onnx'' = Path '''' [''models'', ''yolov8n.onnx'']"
  "joinpath (Path '''' [''models'']) ''yolov8n.engine'' = Path '''' [''models'', ''yolov8n.engine'']"
  by (simp_all add: PurePath_def splitroot_def joinpath_def)

subsection \<open>What each stage function adds to the trace\<close>

lemma download_model_trace:
  assumes "download_model w n d st = (r, st')"
  shows "\<exists>evs. trace st' = trace st @ evs
     \<and> enters evs = [Enter_download_model n d (fs st)]
     \<and> set (saved_paths evs) \<subseteq> {joinpath d (n @ ''.pt'')}
     \<and> renames evs = [] \<and> export_configs evs = [] \<and> subprocess_calls evs = []
     \<and> (\<forall>p. r = Normal p \<longrightarrow> p = joinpath d (n @ ''.pt'') \<and> fs st' p \<noteq> None)
     \<and> (\<forall>e. r \<noteq> Raise e)"
  using assms
  by (auto simp: download_model_def prog_defs call_defs Let_def
      split: sum.splits prod.splits if_splits option.splits)

lemma export_to_onnx_trace:
  assumes "export_to_onnx w pt onnx st = (r, st')"
  shows "\<exists>evs. trace st' = trace st @ evs
     \<and> enters evs = [Enter_export_to_onnx pt onnx (fs st)]
     \<and> saved_paths evs = []
     \<and> set (renames evs) \<subseteq> {(PurePath ''yolov8n.onnx'', onnx)}
     \<and> set (export_configs evs) \<subseteq> {fixed_kwargs} \<and> subprocess_calls evs = []
     \<and> (r = Normal () \<longrightarrow> fs st' onnx \<noteq> None)
     \<and> (\<forall>e. r \<noteq> Raise e)"
  using assms
  by (auto simp: export_to_onnx_def prog_defs call_defs Let_def rename_fs_def fixed_kwargs_def
      split: sum.splits prod.splits if_splits option.splits)

lemma convert_onnx_to_engine_trace:
  assumes "convert_onnx_to_engine w onnx eng prec st = (r, st')"
  shows "\<exists>evs. trace st' = trace st @ evs
     \<and> enters evs = [Enter_convert_onnx_to_engine onnx eng prec (fs st)]
     \<and> saved_paths evs = [] \<and> renames evs = [] \<and> export_configs evs = []
     \<and> (\<forall>e. r \<noteq> Raise e)"
  using assms
  by (auto simp: convert_onnx_to_engine_def prog_defs call_defs Let_def
      split: sum.splits prod.splits if_splits option.splits)

subsection \<open>Sequencing\<close>

lemma seqP_D:
  "seqP m k st = (r, st') \<Longrightarrow>
     (\<exists>x s1. m st = (Normal x, s1) \<and> k s1 = (r, st'))
     \<or> (\<exists>e. m st = (Raise e, st') \<and> r = Raise e)
     \<or> (\<exists>c. m st = (Exit c, st') \<and> r = Exit c)"
  by (auto simp: seqP_def bindP_def split: prod.splits result.splits)

lemma skip_or_run:
  "bindP (path_exists p) (\<lambda>b. if \<not> b then A else print msg) st = (r, st') \<Longrightarrow>
     (fs st p = None \<and> A st = (r, st'))
     \<or> (fs st p \<noteq> None \<and> r = Normal () \<and> st' = emit (Print msg) st)"
  by (auto simp: bindP_def path_exists_def print_def split: if_splits)

lemma mkdir_trace:
  "mkdir w p st = (r, st') \<Longrightarrow> \<exists>x. trace st' = trace st @ [Mkdir p x]"
  by (auto simp: mkdir_def emit_def Let_def split: option.splits node.splits)

text \<open>
  If the first program extends the trace by events that satisfy \<open>G\<close> and establishes \<open>Q\<close>
  when it returns, and the second extends it by such events from any state with \<open>Q\<close>,
  then so does their sequence.
\<close>

lemma seqP_trace:
  assumes run: "seqP m k st = (r, st')"
    and m: "\<And>x s1. m st = (x, s1) \<Longrightarrow>
              \<exists>evs. trace s1 = trace st @ evs \<and> G evs \<and> ((\<exists>v. x = Normal v) \<longrightarrow> Q s1)"
    and k: "\<And>s1. Q s1 \<Longrightarrow> k s1 = (r, st') \<Longrightarrow> \<exists>evs. trace st' = trace s1 @ evs \<and> G evs"
    and app: "\<And>xs ys. G xs \<Longrightarrow> G ys \<Longrightarrow> G (xs @ ys)"
  shows "\<exists>evs. trace st' = trace st @ evs \<and> G evs"
proof -
  from seqP_D [OF run] consider
      (ok) x s1 where "m st = (Normal x, s1)" "k s1 = (r, st')"
    | (stop) x where "m st = (x, st')" "\<forall>v. x \<noteq> Normal v"
    by auto
  then show ?thesis
  proof cases
    case ok
    from m [OF ok(1)] obtain evs1 where
      e1: "trace s1 = trace st @ evs1" "G evs1" "Q s1" by auto
    from k [OF e1(3) ok(2)] obtain evs2 where
      e2: "trace st' = trace s1 @ evs2" "G evs2" by auto
    from e1 e2 have "trace st' = trace st @ (evs1 @ evs2)" by simp
    moreover from e1 e2 have "G (evs1 @ evs2)" by (simp add: app)
    ultimately show ?thesis by blast
  next
    case stop
    from m [OF stop(1)] show ?thesis by auto
  qed
qed

subsection \<open>The three steps of the controller\<close>

lemma stage_events_ok_download:
  assumes "bindP (path_exists (joinpath d (n @ ''.pt'')))
             (\<lambda>b. if \<not> b then seqP (download_model w n d) (returnP ()) else print msg) st
           = (r, st')"
  shows "\<exists>evs. trace st' = trace st @ evs \<and> stage_events_ok n d evs
           \<and> ((\<exists>v. r = Normal v) \<longrightarrow> fs st' (joinpath d (n @ ''.pt'')) \<noteq> None)"
  using assms
  by (auto simp: returnP_def emit_def stage_events_ok_def
      dest!: skip_or_run seqP_D download_model_trace)

lemma stage_events_ok_export:
  assumes "bindP (path_exists (joinpath d (n @ ''.onnx'')))
             (\<lambda>b. if \<not> b
                  then export_to_onnx w (joinpath d (n @ ''.pt'')) (joinpath d (n @ ''.onnx''))
                  else print msg) st
           = (r, st')"
    and "fs st (joinpath d (n @ ''.pt'')) \<noteq> None"
  shows "\<exists>evs. trace st' = trace st @ evs \<and> stage_events_ok n d evs
           \<and> ((\<exists>v. r = Normal v) \<longrightarrow> fs st' (joinpath d (n @ ''.onnx'')) \<noteq> None)"
  using assms
  by (auto simp: emit_def stage_events_ok_def dest!: skip_or_run export_to_onnx_trace)

lemma stage_events_ok_convert:
  assumes "bindP (path_exists (joinpath d (n @ ''.engine'')))
             (\<lambda>b. if \<not> b
                  then convert_onnx_to_engine w (joinpath d (n @ ''.onnx''))
                         (joinpath d (n @ ''.engine'')) ''fp16''
                  else print msg) st
           = (r, st')"
    and "fs st (joinpath d (n @ ''.onnx'')) \<noteq> None"
  shows "\<exists>evs. trace st' = trace st @ evs \<and> stage_events_ok n d evs"
  using assms
  by (auto simp: emit_def stage_events_ok_def dest!: skip_or_run convert_onnx_to_engine_trace)

lemma controller_from_export:
  assumes run: "seqP
             (bindP (path_exists (joinpath d (n @ ''.onnx'')))
               (\<lambda>b. if \<not> b
                    then export_to_onnx w (joinpath d (n @ ''.pt'')) (joinpath d (n @ ''.onnx''))
                    else print msg2))
             (bindP (path_exists (joinpath d (n @ ''.engine'')))
               (\<lambda>b. if \<not> b
                    then convert_onnx_to_engine w (joinpath d (n @ ''.onnx''))
                           (joinpath d (n @ ''.engine'')) ''fp16''
                    else print msg3)) st
           = (r, st')"
    and pt: "fs st (joinpath d (n @ ''.pt'')) \<noteq> None"
  shows "\<exists>evs. trace st' = trace st @ evs \<and> stage_events_ok n d evs"
  apply (rule seqP_trace [OF run, where Q = "\<lambda>s. fs s (joinpath d (n @ ''.onnx'')) \<noteq> None"])
    apply (erule stage_events_ok_export [OF _ pt])
   apply (erule stage_events_ok_convert [rotated], assumption)
  apply (simp add: stage_events_ok_append)
  done

lemma controller_from_download:
  assumes run: "seqP
             (bindP (path_exists (joinpath d (n @ ''.pt'')))
               (\<lambda>b. if \<not> b then seqP (download_model w n d) (returnP ()) else print msg1))
             (seqP
               (bindP (path_exists (joinpath d (n @ ''.onnx'')))
                 (\<lambda>b. if \<not> b
                      then export_to_onnx w (joinpath d (n @ ''.pt'')) (joinpath d (n @ ''.onnx''))
                      else print msg2))
               (bindP (path_exists (joinpath d (n @ ''.engine'')))
                 (\<lambda>b. if \<not> b
                      then convert_onnx_to_engine w (joinpath d (n @ ''.onnx''))
                             (joinpath d (n @ ''.engine'')) ''fp16''
                      else print msg3))) st
           = (r, st')"
  shows "\<exists>evs. trace st' = trace st @ evs \<and> stage_events_ok n d evs"
  apply (rule seqP_trace [OF run, where Q = "\<lambda>s. fs s (joinpath d (n @ ''.pt'')) \<noteq> None"])
    apply (erule stage_events_ok_download)
   apply (erule controller_from_export [rotated], assumption)
  apply (simp add: stage_events_ok_append)
  done

lemma main_on_trace:
  assumes "main_on w n d st = (r, st')"
  shows "\<exists>evs. trace st' = trace st @ evs \<and> stage_events_ok n d evs"
  using assms unfolding main_on_def Let_def
  apply (rule seqP_trace [where Q = "\<lambda>s. True"])
    apply (drule mkdir_trace)
    apply (auto simp: stage_events_ok_def)[1]
   apply (erule controller_from_download)
  apply (simp add: stage_events_ok_append)
  done

text \<open>The same, read through \<open>events_of\<close>.\<close>

lemma main_on_events_ok: "stage_events_ok n d (events_of (main_on w n d) st)"
proof -
  obtain r st' where run: "main_on w n d st = (r, st')" by (cases "main_on w n d st")
  from main_on_trace [OF run] show ?thesis
    by (auto simp: events_of_def run)
qed

lemma in_enters:
  "Enter_download_model a b f \<in> set evs \<Longrightarrow> Enter_download_model a b f \<in> set (enters evs)"
  "Enter_export_to_onnx p q f \<in> set evs \<Longrightarrow> Enter_export_to_onnx p q f \<in> set (enters evs)"
  "Enter_convert_onnx_to_engine p q c f \<in> set evs \<Longrightarrow>
     Enter_convert_onnx_to_engine p q c f \<in> set (enters evs)"
  by (induction evs rule: enters.induct) auto

lemma in_saved_paths: "Model_save m p x \<in> set evs \<Longrightarrow> p \<in> set (saved_paths evs)"
  by (induction evs rule: saved_paths.induct) auto

lemma in_renames: "Rename a b x \<in> set evs \<Longrightarrow> (a, b) \<in> set (renames evs)"
  by (induction evs rule: renames.induct) auto

lemma in_export_configs: "Model_export m kw x \<in> set evs \<Longrightarrow> kw \<in> set (export_configs evs)"
  by (induction evs rule: export_configs.induct) auto

lemma in_subprocess_calls:
  "Subprocess_run args c t x \<in> set evs \<Longrightarrow> (args, c, t) \<in> set (subprocess_calls evs)"
  by (induction evs rule: subprocess_calls.induct) auto

section \<open>The controller\<close>

subsection \<open>Skipping what is already there\<close>

text \<open>
  C1. When the serialized model, the interchange artifact and the compiled engine are all
  present at \<open>models/yolov8n.pt\<close>, \<open>models/yolov8n.onnx\<close> and \<open>models/yolov8n.engine\<close>,
  a run of \<open>main\<close> enters no stage function and makes no call to the library or to a
  subprocess: all it does is the \<open>mkdir\<close> on the existing directory and three skip
  notices. It returns normally, so the process ends with status 0, and the filesystem is
  unchanged. This holds in every world and from every state whose filesystem is
  hierarchical.
\<close>

theorem cached_run_invokes_no_stage:
  assumes "hierarchical (fs st)"
    and "fs st (PurePath ''models/yolov8n.pt'') \<noteq> None"
    and "fs st (PurePath ''models/yolov8n.onnx'') \<noteq> None"
    and "fs st (PurePath ''models/yolov8n.engine'') \<noteq> None"
  shows "events_of (main w) st =
           [Mkdir (PurePath ''models'') None,
            Print ''El modelo PyTorch ya existe en models/yolov8n.pt. Saltando descarga.'',
            Print (''El modelo ONNX ya existe en models/yolov8n.onnx. Saltando exportaci''
                   @ [CHR 0xF3] @ ''n.''),
            Print (''El modelo TensorRT .engine ya existe en models/yolov8n.engine. Saltando conversi''
                   @ [CHR 0xF3] @ ''n.'')]
       \<and> enters (events_of (main w) st) = []
       \<and> subprocess_calls (events_of (main w) st) = []
       \<and> result_of (main w) st = Normal ()
       \<and> exit_status (result_of (main w) st) = 0
       \<and> fs_after (main w) st = fs st"
proof -
  from assms(1,2) have "fs st (parent (PurePath ''models/yolov8n.pt'')) = Some Dir"
    unfolding hierarchical_def by blast
  then have dir: "fs st (Path '''' [''models'']) = Some Dir"
    by (simp add: main_paths parent_def)
  from assms(2-4) obtain a b c where files:
    "fs st (Path '''' [''models'', ''yolov8n.pt'']) = Some a"
    "fs st (Path '''' [''models'', ''yolov8n.onnx'']) = Some b"
    "fs st (Path '''' [''models'', ''yolov8n.engine'']) = Some c"
    by (auto simp: main_paths)
  have run: "main w st =
      (Normal (), st\<lparr>trace := trace st @
           [Mkdir (Path '''' [''models'']) None,
            Print ''El modelo PyTorch ya existe en models/yolov8n.pt. Saltando descarga.'',
            Print (''El modelo ONNX ya existe en models/yolov8n.onnx. Saltando exportaci''
                   @ [CHR 0xF3] @ ''n.''),
            Print (''El modelo TensorRT .engine ya existe en models/yolov8n.engine. Saltando conversi''
                   @ [CHR 0xF3] @ ''n.'')]\<rparr>)"
    using dir files
    by (simp add: main_def main_on_def main_paths Let_def prog_defs mkdir_def str_path_def)
  show ?thesis
    by (simp add: run_defs run main_paths)
qed

text \<open>The hypotheses of C1 hold of \<open>fs_cached\<close>, where the theorem gives a run without stage work.\<close>

theorem cached_run_invokes_no_stage_witness:
  "hierarchical fs_cached
   \<and> fs_cached (PurePath ''models/yolov8n.pt'') \<noteq> None
   \<and> fs_cached (PurePath ''models/yolov8n.onnx'') \<noteq> None
   \<and> fs_cached (PurePath ''models/yolov8n.engine'') \<noteq> None
   \<and> enters (events_of (main world_ok) (start fs_cached)) = []
   \<and> subprocess_calls (events_of (main world_ok) (start fs_cached)) = []
   \<and> exit_status (result_of (main world_ok) (start fs_cached)) = 0"
proof -
  have h: "hierarchical (fs (start fs_cached))"
    by (auto simp: hierarchical_def start_def fs_cached_def parent_def split: if_splits)
  have f: "fs (start fs_cached) (PurePath ''models/yolov8n.pt'') \<noteq> None"
    "fs (start fs_cached) (PurePath ''models/yolov8n.onnx'') \<noteq> None"
    "fs (start fs_cached) (PurePath ''models/yolov8n.engine'') \<noteq> None"
    by (simp_all add: start_def fs_cached_def main_paths)
  from cached_run_invokes_no_stage [OF h f, of world_ok] h f show ?thesis
    by (simp add: start_def)
qed

subsection \<open>A stage runs only when its input is present\<close>

text \<open>
  C2 as stated asks for the input of a stage to exist and to be non-empty. The controller
  looks at presence only: from \<open>fs_empty_pt\<close>, where \<open>models/yolov8n.pt\<close> is an empty
  file, \<open>main\<close> skips the download and enters \<open>export_to_onnx\<close> with that empty file as
  its input.
\<close>

theorem converter_invoked_on_empty_model:
  "Enter_export_to_onnx (PurePath ''models/yolov8n.pt'') (PurePath ''models/yolov8n.onnx'')
       fs_empty_pt
     \<in> set (events_of (main world_ok) (start fs_empty_pt))
   \<and> fs_empty_pt (PurePath ''models/yolov8n.pt'') = Some (File '''')"
  by (simp add: run_defs main_def main_on_def stage_defs prog_defs call_defs world_defs
      fs_empty_pt_def path_defs Let_def rename_fs_def)

text \<open>
  C2, amended. In every run of the controller, for every model name and directory, in
  every world: whenever \<open>export_to_onnx\<close> is entered, its first argument is the
  controller's serialized-model path and something is present at that path in the
  filesystem of that moment; whenever \<open>convert_onnx_to_engine\<close> is entered, its first
  argument is the controller's interchange-artifact path and something is present there.
  Nothing is said about the size or the kind of what is present.
\<close>

theorem stage_input_present_at_entry:
  "(Enter_export_to_onnx p q f \<in> set (events_of (main_on w n d) st)
      \<longrightarrow> p = joinpath d (n @ ''.pt'') \<and> f p \<noteq> None)
   \<and> (Enter_convert_onnx_to_engine p' q' c f' \<in> set (events_of (main_on w n d) st)
      \<longrightarrow> p' = joinpath d (n @ ''.onnx'') \<and> f' p' \<noteq> None)"
proof -
  have ok: "list_all (entry_ok n d) (enters (events_of (main_on w n d) st))"
    using main_on_events_ok [of n d w st] by (simp add: stage_events_ok_def)
  have "p = joinpath d (n @ ''.pt'') \<and> f p \<noteq> None"
    if "Enter_export_to_onnx p q f \<in> set (events_of (main_on w n d) st)"
  proof -
    from that have "Enter_export_to_onnx p q f \<in> set (enters (events_of (main_on w n d) st))"
      by (rule in_enters)
    with ok have "entry_ok n d (Enter_export_to_onnx p q f)"
      unfolding list_all_iff by blast
    then show ?thesis by auto
  qed
  moreover have "p' = joinpath d (n @ ''.onnx'') \<and> f' p' \<noteq> None"
    if "Enter_convert_onnx_to_engine p' q' c f' \<in> set (events_of (main_on w n d) st)"
  proof -
    from that have
      "Enter_convert_onnx_to_engine p' q' c f' \<in> set (enters (events_of (main_on w n d) st))"
      by (rule in_enters)
    with ok have "entry_ok n d (Enter_convert_onnx_to_engine p' q' c f')"
      unfolding list_all_iff by blast
    then show ?thesis by auto
  qed
  ultimately show ?thesis by blast
qed

text \<open>
  Both entries occur: after a download into an empty working directory the converter is
  entered with the file just saved; with the first two artifacts present the compiler
  invoker is entered.
\<close>

theorem stage_input_present_at_entry_witness:
  "Enter_export_to_onnx (PurePath ''models/yolov8n.pt'') (PurePath ''models/yolov8n.onnx'')
       (fs_fresh(PurePath ''models'' \<mapsto> Dir, PurePath ''models/yolov8n.pt'' \<mapsto> File ''PKw''))
     \<in> set (events_of (main world_ok) (start fs_fresh))
   \<and> (fs_fresh(PurePath ''models'' \<mapsto> Dir, PurePath ''models/yolov8n.pt'' \<mapsto> File ''PKw''))
        (PurePath ''models/yolov8n.pt'') \<noteq> None
   \<and> Enter_convert_onnx_to_engine (PurePath ''models/yolov8n.onnx'')
       (PurePath ''models/yolov8n.engine'') ''fp16'' fs_no_engine
     \<in> set (events_of (main world_ok) (start fs_no_engine))
   \<and> fs_no_engine (PurePath ''models/yolov8n.onnx'') \<noteq> None"
proof -
  have a: "Enter_export_to_onnx (PurePath ''models/yolov8n.pt'') (PurePath ''models/yolov8n.onnx'')
       (fs_fresh(PurePath ''models'' \<mapsto> Dir, PurePath ''models/yolov8n.pt'' \<mapsto> File ''PKw''))
     \<in> set (events_of (main_on world_ok ''yolov8n'' (PurePath ''./models'')) (start fs_fresh))"
    by (simp add: run_defs main_on_def stage_defs prog_defs call_defs world_defs
      fs_fresh_def path_defs Let_def rename_fs_def mkdir_fs_def ancestors_or_self_def)
  have b: "Enter_convert_onnx_to_engine (PurePath ''models/yolov8n.onnx'')
       (PurePath ''models/yolov8n.engine'') ''fp16'' fs_no_engine
     \<in> set (events_of (main_on world_ok ''yolov8n'' (PurePath ''./models'')) (start fs_no_engine))"
    by (simp add: run_defs main_on_def stage_defs prog_defs call_defs world_defs
      fs_no_engine_def path_defs Let_def)
  from a b
    stage_input_present_at_entry [of "PurePath ''models/yolov8n.pt''" "PurePath ''models/yolov8n.onnx''"
      "fs_fresh(PurePath ''models'' \<mapsto> Dir, PurePath ''models/yolov8n.pt'' \<mapsto> File ''PKw'')"
      world_ok "''yolov8n''" "PurePath ''./models''" "start fs_fresh"]
    stage_input_present_at_entry [of _ _ _ world_ok "''yolov8n''" "PurePath ''./models''"
      "start fs_no_engine" "PurePath ''models/yolov8n.onnx''" "PurePath ''models/yolov8n.engine''"
      "''fp16''" fs_no_engine]
  show ?thesis
    by (simp add: main_def main_paths)
qed

subsection \<open>The three paths\<close>

lemma split_on_no_sep: "c \<notin> set s \<Longrightarrow> split_on c s = [s]"
  by (induction s) auto

lemma PurePath_plain:
  assumes "CHR ''/'' \<notin> set s" and "s \<noteq> []" and "s \<noteq> ''.''"
  shows "PurePath s = Path '''' [s]"
proof -
  from assms(1,2) have "take 1 s \<noteq> ''/''"
    by (cases s) auto
  then have "splitroot s = ('''', s)"
    by (simp add: splitroot_def)
  with assms show ?thesis
    by (simp add: PurePath_def split_on_no_sep)
qed

lemma joinpath_plain:
  assumes "CHR ''/'' \<notin> set s" and "s \<noteq> []" and "s \<noteq> ''.''"
  shows "joinpath d s = Path (path_root d) (path_parts d @ [s])"
  by (simp add: joinpath_def PurePath_plain [OF assms])

text \<open>
  C8. The three output paths are functions of the model name \<open>n\<close> and the directory \<open>d\<close>
  alone: in every run of the controller, in every world and from every state, the
  acquirer is entered with \<open>n\<close> and \<open>d\<close> and saves to \<open>d / (n + ".pt")\<close>, the converter is
  entered with \<open>d / (n + ".pt")\<close> and \<open>d / (n + ".onnx")\<close> and renames to the latter, and the
  compiler invoker is entered with \<open>d / (n + ".onnx")\<close> and \<open>d / (n + ".engine")\<close>; the
  path \<open>download_model\<close> computes and returns is the controller's first path. Here \<open>/\<close>
  is the join of \<open>pathlib\<close>; for a name without a slash the three paths are the
  directory's parts followed by the name with its extension.
\<close>

theorem artifact_paths_determined:
  "(Enter_download_model a b f \<in> set (events_of (main_on w n d) st) \<longrightarrow> a = n \<and> b = d)
   \<and> (Model_save m p x \<in> set (events_of (main_on w n d) st) \<longrightarrow> p = joinpath d (n @ ''.pt''))
   \<and> (Enter_export_to_onnx p1 q1 f1 \<in> set (events_of (main_on w n d) st)
        \<longrightarrow> p1 = joinpath d (n @ ''.pt'') \<and> q1 = joinpath d (n @ ''.onnx''))
   \<and> (Rename a2 b2 x2 \<in> set (events_of (main_on w n d) st) \<longrightarrow> b2 = joinpath d (n @ ''.onnx''))
   \<and> (Enter_convert_onnx_to_engine p3 q3 c3 f3 \<in> set (events_of (main_on w n d) st)
        \<longrightarrow> p3 = joinpath d (n @ ''.onnx'') \<and> q3 = joinpath d (n @ ''.engine''))
   \<and> (result_of (download_model w n d) st = Normal p4 \<longrightarrow> p4 = joinpath d (n @ ''.pt''))
   \<and> (CHR ''/'' \<notin> set n
        \<longrightarrow> joinpath d (n @ ''.pt'') = Path (path_root d) (path_parts d @ [n @ ''.pt''])
          \<and> joinpath d (n @ ''.onnx'') = Path (path_root d) (path_parts d @ [n @ ''.onnx''])
          \<and> joinpath d (n @ ''.engine'') = Path (path_root d) (path_parts d @ [n @ ''.engine'']))"
proof -
  let ?E = "events_of (main_on w n d) st"
  have ok: "stage_events_ok n d ?E"
    by (rule main_on_events_ok)
  then have ent: "\<And>e. e \<in> set (enters ?E) \<Longrightarrow> entry_ok n d e"
    by (simp add: stage_events_ok_def list_all_iff)
  have 1: "a = n \<and> b = d" if "Enter_download_model a b f \<in> set ?E"
    using ent [OF in_enters(1) [OF that]] by simp
  have 2: "p = joinpath d (n @ ''.pt'')" if "Model_save m p x \<in> set ?E"
    using in_saved_paths [OF that] ok by (auto simp: stage_events_ok_def)
  have 3: "p1 = joinpath d (n @ ''.pt'') \<and> q1 = joinpath d (n @ ''.onnx'')"
    if "Enter_export_to_onnx p1 q1 f1 \<in> set ?E"
    using ent [OF in_enters(2) [OF that]] by simp
  have 4: "b2 = joinpath d (n @ ''.onnx'')" if "Rename a2 b2 x2 \<in> set ?E"
    using in_renames [OF that] ok by (auto simp: stage_events_ok_def)
  have 5: "p3 = joinpath d (n @ ''.onnx'') \<and> q3 = joinpath d (n @ ''.engine'')"
    if "Enter_convert_onnx_to_engine p3 q3 c3 f3 \<in> set ?E"
    using ent [OF in_enters(3) [OF that]] by simp
  have 6: "p4 = joinpath d (n @ ''.pt'')" if "result_of (download_model w n d) st = Normal p4"
  proof -
    obtain r st' where run: "download_model w n d st = (r, st')"
      by (cases "download_model w n d st")
    with that have "r = Normal p4" by (simp add: result_of_def)
    with download_model_trace [OF run] show ?thesis by auto
  qed
  have 7: "joinpath d (n @ ext) = Path (path_root d) (path_parts d @ [n @ ext])"
    if "CHR ''/'' \<notin> set n" and "ext \<in> {''.pt'', ''.onnx'', ''.engine''}" for ext
  proof (rule joinpath_plain)
    from that show "CHR ''/'' \<notin> set (n @ ext)" by auto
    from that show "n @ ext \<noteq> []" by auto
    from that(2) have "last (n @ ext) \<in> {CHR ''t'', CHR ''x'', CHR ''e''}" by auto
    then show "n @ ext \<noteq> ''.''" by auto
  qed
  from 1 2 3 4 5 6 7 show ?thesis
    by blast
qed

text \<open>The script's own paths: \<open>models/yolov8n.pt\<close>, \<open>models/yolov8n.onnx\<close>, \<open>models/yolov8n.engine\<close>.\<close>

theorem artifact_paths_determined_witness:
  "Enter_download_model ''yolov8n'' (PurePath ''./models'')
       (fs_fresh(PurePath ''models'' \<mapsto> Dir))
     \<in> set (events_of (main world_ok) (start fs_fresh))
   \<and> Model_save \<lparr>device = ''cpu'', weights = ''w''\<rparr> (PurePath ''models/yolov8n.pt'') None
     \<in> set (events_of (main world_ok) (start fs_fresh))
   \<and> Enter_export_to_onnx (PurePath ''models/yolov8n.pt'') (PurePath ''models/yolov8n.onnx'')
       fs_empty_pt
     \<in> set (events_of (main world_ok) (start fs_empty_pt))
   \<and> Rename (PurePath ''yolov8n.onnx'') (PurePath ''models/yolov8n.onnx'') None
     \<in> set (events_of (main world_ok) (start fs_empty_pt))
   \<and> Enter_convert_onnx_to_engine (PurePath ''models/yolov8n.onnx'')
       (PurePath ''models/yolov8n.engine'') ''fp16'' fs_no_engine
     \<in> set (events_of (main world_ok) (start fs_no_engine))
   \<and> result_of (download_model world_ok ''yolov8n'' (PurePath ''./models'')) (start fs_fresh)
       = Normal (PurePath ''models/yolov8n.pt'')
   \<and> CHR ''/'' \<notin> set ''yolov8n''
   \<and> joinpath (PurePath ''./models'') (''yolov8n'' @ ''.pt'') = PurePath ''models/yolov8n.pt''
   \<and> joinpath (PurePath ''./models'') (''yolov8n'' @ ''.onnx'') = PurePath ''models/yolov8n.onnx''
   \<and> joinpath (PurePath ''./models'') (''yolov8n'' @ ''.engine'')
       = PurePath ''models/yolov8n.engine''"
proof -
  let ?m = "main_on world_ok ''yolov8n'' (PurePath ''./models'')"
  have a: "Enter_download_model ''yolov8n'' (PurePath ''./models'')
       (fs_fresh(PurePath ''models'' \<mapsto> Dir)) \<in> set (events_of ?m (start fs_fresh))"
    by (simp add: run_defs main_on_def stage_defs prog_defs call_defs world_defs
      fs_fresh_def path_defs Let_def rename_fs_def mkdir_fs_def ancestors_or_self_def)
  have b: "Model_save \<lparr>device = ''cpu'', weights = ''w''\<rparr> (PurePath ''models/yolov8n.pt'') None
     \<in> set (events_of ?m (start fs_fresh))"
    by (simp add: run_defs main_on_def stage_defs prog_defs call_defs world_defs
      fs_fresh_def path_defs Let_def rename_fs_def mkdir_fs_def ancestors_or_self_def)
  have c: "Enter_export_to_onnx (PurePath ''models/yolov8n.pt'') (PurePath ''models/yolov8n.onnx'')
       fs_empty_pt \<in> set (events_of ?m (start fs_empty_pt))"
    by (simp add: run_defs main_on_def stage_defs prog_defs call_defs world_defs
      fs_empty_pt_def path_defs Let_def rename_fs_def)
  have d: "Rename (PurePath ''yolov8n.onnx'') (PurePath ''models/yolov8n.onnx'') None
     \<in> set (events_of ?m (start fs_empty_pt))"
    by (simp add: run_defs main_on_def stage_defs prog_defs call_defs world_defs
      fs_empty_pt_def path_defs Let_def rename_fs_def)
  have e: "Enter_convert_onnx_to_engine (PurePath ''models/yolov8n.onnx'')
       (PurePath ''models/yolov8n.engine'') ''fp16'' fs_no_engine
     \<in> set (events_of ?m (start fs_no_engine))"
    by (simp add: run_defs main_on_def stage_defs prog_defs call_defs world_defs
      fs_no_engine_def path_defs Let_def)
  have g: "result_of (download_model world_ok ''yolov8n'' (PurePath ''./models'')) (start fs_fresh)
       = Normal (PurePath ''models/yolov8n.pt'')"
    by (simp add: run_defs stage_defs prog_defs call_defs world_defs
      fs_fresh_def path_defs Let_def)
  have h: "CHR ''/'' \<notin> set ''yolov8n''"
    by simp
  from a b c d e g h
    artifact_paths_determined [of "''yolov8n''" "PurePath ''./models''"
      "fs_fresh(PurePath ''models'' \<mapsto> Dir)" world_ok "''yolov8n''" "PurePath ''./models''"
      "start fs_fresh" "\<lparr>device = ''cpu'', weights = ''w''\<rparr>" "PurePath ''models/yolov8n.pt''" None
      _ _ _ _ _ _ _ _ _ _ "PurePath ''models/yolov8n.pt''"]
    artifact_paths_determined [of _ _ _ world_ok "''yolov8n''" "PurePath ''./models''"
      "start fs_empty_pt" _ _ _
      "PurePath ''models/yolov8n.pt''" "PurePath ''models/yolov8n.onnx''" fs_empty_pt
      "PurePath ''yolov8n.onnx''" "PurePath ''models/yolov8n.onnx''" None]
    artifact_paths_determined [of _ _ _ world_ok "''yolov8n''" "PurePath ''./models''"
      "start fs_no_engine" _ _ _ _ _ _ _ _ _
      "PurePath ''models/yolov8n.onnx''" "PurePath ''models/yolov8n.engine''" "''fp16''"
      fs_no_engine]
  show ?thesis
    by (simp add: main_def main_paths)
qed

section \<open>The compiler invoker\<close>

subsection \<open>The precision flag\<close>

text \<open>
  C3 as stated has every precision outside \<open>fp32\<close>, \<open>fp16\<close>, \<open>int8\<close> rejected before a
  flag derived from it reaches the subprocess. \<open>convert_onnx_to_engine\<close> validates
  nothing: called with \<open>bogus\<close> where the probe succeeds, it runs \<open>trtexec\<close> with the flag
  \<open>--bogus\<close> and returns normally.
\<close>

theorem unvalidated_precision_reaches_trtexec:
  "''bogus'' \<notin> {''fp32'', ''fp16'', ''int8''}
   \<and> subprocess_calls
        (events_of (convert_onnx_to_engine world_ok (PurePath ''models/yolov8n.onnx'')
                      (PurePath ''models/yolov8n.engine'') ''bogus'') (start fs_no_engine))
      = [([''trtexec'', ''--version''], True, True),
         ([''trtexec'', ''--onnx=models/yolov8n.onnx'', ''--saveEngine=models/yolov8n.engine'',
           ''--bogus''], True, True)]
   \<and> result_of (convert_onnx_to_engine world_ok (PurePath ''models/yolov8n.onnx'')
                   (PurePath ''models/yolov8n.engine'') ''bogus'') (start fs_no_engine)
      = Normal ()"
  by (simp add: run_defs stage_defs prog_defs call_defs world_defs path_defs Let_def)

text \<open>
  C3, amended. \<open>convert_onnx_to_engine\<close> passes the precision through verbatim, for every
  string: the subprocess calls of an invocation are the version probe alone, or the probe
  followed by \<open>trtexec --onnx=<artifact> --saveEngine=<engine> --<precision>\<close>; the second
  call is made whenever the probe answered 0, and whenever the function returns. So the
  flag is exactly \<open>--fp16\<close> for \<open>fp16\<close> and exactly \<open>--int8\<close> for \<open>int8\<close>, and no
  precision value is validated or rejected.
\<close>

theorem precision_flag_verbatim:
  "(subprocess_calls (events_of (convert_onnx_to_engine w onnx eng prec) st)
      = [([''trtexec'', ''--version''], True, True)]
    \<or> subprocess_calls (events_of (convert_onnx_to_engine w onnx eng prec) st)
      = [([''trtexec'', ''--version''], True, True),
         ([''trtexec'', ''--onnx='' @ str_path onnx, ''--saveEngine='' @ str_path eng,
           ''--'' @ prec], True, True)])
   \<and> (result_of (convert_onnx_to_engine w onnx eng prec) st = Normal ()
        \<or> (Subprocess_run [''trtexec'', ''--version''] c t (Inr cp)
               \<in> set (events_of (convert_onnx_to_engine w onnx eng prec) st)
             \<and> returncode cp = 0)
      \<longrightarrow> subprocess_calls (events_of (convert_onnx_to_engine w onnx eng prec) st)
          = [([''trtexec'', ''--version''], True, True),
             ([''trtexec'', ''--onnx='' @ str_path onnx, ''--saveEngine='' @ str_path eng,
               ''--'' @ prec], True, True)])"
  by (auto simp: run_defs convert_onnx_to_engine_def prog_defs subprocess_run_def Let_def
      split: sum.splits prod.splits if_splits)

text \<open>In a world where \<open>trtexec\<close> answers 0, \<open>fp16\<close> gives \<open>--fp16\<close> and \<open>int8\<close> gives \<open>--int8\<close>.\<close>

theorem precision_flag_verbatim_witness:
  "result_of (convert_onnx_to_engine world_ok (PurePath ''models/yolov8n.onnx'')
                (PurePath ''models/yolov8n.engine'') ''fp16'') (start fs_no_engine) = Normal ()
   \<and> subprocess_calls
        (events_of (convert_onnx_to_engine world_ok (PurePath ''models/yolov8n.onnx'')
                      (PurePath ''models/yolov8n.engine'') ''fp16'') (start fs_no_engine))
      = [([''trtexec'', ''--version''], True, True),
         ([''trtexec'', ''--onnx=models/yolov8n.onnx'', ''--saveEngine=models/yolov8n.engine'',
           ''--fp16''], True, True)]
   \<and> result_of (convert_onnx_to_engine world_ok (PurePath ''models/yolov8n.onnx'')
                (PurePath ''models/yolov8n.engine'') ''int8'') (start fs_no_engine) = Normal ()
   \<and> subprocess_calls
        (events_of (convert_onnx_to_engine world_ok (PurePath ''models/yolov8n.onnx'')
                      (PurePath ''models/yolov8n.engine'') ''int8'') (start fs_no_engine))
      = [([''trtexec'', ''--version''], True, True),
         ([''trtexec'', ''--onnx=models/yolov8n.onnx'', ''--saveEngine=models/yolov8n.engine'',
           ''--int8''], True, True)]"
proof -
  have a: "result_of (convert_onnx_to_engine world_ok (PurePath ''models/yolov8n.onnx'')
                (PurePath ''models/yolov8n.engine'') ''fp16'') (start fs_no_engine) = Normal ()"
    by (simp add: run_defs stage_defs prog_defs call_defs world_defs path_defs Let_def)
  have b: "result_of (convert_onnx_to_engine world_ok (PurePath ''models/yolov8n.onnx'')
                (PurePath ''models/yolov8n.engine'') ''int8'') (start fs_no_engine) = Normal ()"
    by (simp add: run_defs stage_defs prog_defs call_defs world_defs path_defs Let_def)
  have s: "str_path (PurePath ''models/yolov8n.onnx'') = ''models/yolov8n.onnx''"
    "str_path (PurePath ''models/yolov8n.engine'') = ''models/yolov8n.engine''"
    by (simp_all add: path_defs)
  from a b
    precision_flag_verbatim [of world_ok "PurePath ''models/yolov8n.onnx''"
      "PurePath ''models/yolov8n.engine''" "''fp16''" "start fs_no_engine"]
    precision_flag_verbatim [of world_ok "PurePath ''models/yolov8n.onnx''"
      "PurePath ''models/yolov8n.engine''" "''int8''" "start fs_no_engine"]
  show ?thesis
    by (simp add: s)
qed

subsection \<open>Failing fast when the tool is missing\<close>

text \<open>
  C4. Whenever the version probe \<open>trtexec --version\<close> answers with a non-zero return
  code, \<open>convert_onnx_to_engine\<close> ends the process with \<open>sys.exit(1)\<close>, a non-zero
  status, and the probe is the only subprocess call of the invocation: the compilation
  is never started.
\<close>

theorem probe_failure_exits_before_compile:
  assumes "Subprocess_run [''trtexec'', ''--version''] c t (Inr cp)
             \<in> set (events_of (convert_onnx_to_engine w onnx eng prec) st)"
    and "returncode cp \<noteq> 0"
  shows "result_of (convert_onnx_to_engine w onnx eng prec) st = Exit 1
       \<and> exit_status (result_of (convert_onnx_to_engine w onnx eng prec) st) \<noteq> 0
       \<and> subprocess_calls (events_of (convert_onnx_to_engine w onnx eng prec) st)
           = [([''trtexec'', ''--version''], True, True)]"
  using assms
  by (auto simp: run_defs convert_onnx_to_engine_def prog_defs subprocess_run_def Let_def
      split: sum.splits prod.splits if_splits)

text \<open>A probe that answers 127.\<close>

theorem probe_failure_exits_before_compile_witness:
  "Subprocess_run [''trtexec'', ''--version''] True True
       (Inr \<lparr>returncode = 127, stdout = '''', stderr = ''trtexec: not found''\<rparr>)
     \<in> set (events_of (convert_onnx_to_engine world_no_tool (PurePath ''models/yolov8n.onnx'')
                         (PurePath ''models/yolov8n.engine'') ''fp16'') (start fs_no_engine))
   \<and> returncode \<lparr>returncode = 127, stdout = '''', stderr = ''trtexec: not found''\<rparr> \<noteq> 0
   \<and> result_of (convert_onnx_to_engine world_no_tool (PurePath ''models/yolov8n.onnx'')
                   (PurePath ''models/yolov8n.engine'') ''fp16'') (start fs_no_engine) = Exit 1
   \<and> subprocess_calls
        (events_of (convert_onnx_to_engine world_no_tool (PurePath ''models/yolov8n.onnx'')
                      (PurePath ''models/yolov8n.engine'') ''fp16'') (start fs_no_engine))
      = [([''trtexec'', ''--version''], True, True)]"
proof -
  have h: "Subprocess_run [''trtexec'', ''--version''] True True
       (Inr \<lparr>returncode = 127, stdout = '''', stderr = ''trtexec: not found''\<rparr>)
     \<in> set (events_of (convert_onnx_to_engine world_no_tool (PurePath ''models/yolov8n.onnx'')
                         (PurePath ''models/yolov8n.engine'') ''fp16'') (start fs_no_engine))"
    by (simp add: run_defs stage_defs prog_defs call_defs world_defs path_defs Let_def)
  have n: "returncode \<lparr>returncode = 127, stdout = '''', stderr = ''trtexec: not found''\<rparr> \<noteq> 0"
    by simp
  from probe_failure_exits_before_compile [OF h n] h n show ?thesis
    by simp
qed

subsection \<open>Reporting a failed compilation\<close>

text \<open>
  C7 as stated has the captured standard error surfaced for every subprocess run that
  exits with a non-zero code. The version probe is such a run, and its standard error is
  never printed: where \<open>trtexec --version\<close> answers 127 with \<open>trtexec: not found\<close> on
  standard error, the invocation prints its opening line and the fixed message that
  \<open>trtexec\<close> is not available, and nothing else, before \<open>sys.exit(1)\<close>.
\<close>

theorem failing_probe_stderr_not_printed:
  "Subprocess_run [''trtexec'', ''--version''] True True
       (Inr \<lparr>returncode = 127, stdout = '''', stderr = ''trtexec: not found''\<rparr>)
     \<in> set (events_of (convert_onnx_to_engine world_no_tool (PurePath ''models/yolov8n.onnx'')
                         (PurePath ''models/yolov8n.engine'') ''fp16'') (start fs_no_engine))
   \<and> returncode \<lparr>returncode = 127, stdout = '''', stderr = ''trtexec: not found''\<rparr> \<noteq> 0
   \<and> printed (events_of (convert_onnx_to_engine world_no_tool (PurePath ''models/yolov8n.onnx'')
                           (PurePath ''models/yolov8n.engine'') ''fp16'') (start fs_no_engine))
       = [''Convirtiendo models/yolov8n.onnx a TensorRT .engine con precisi'' @ [CHR 0xF3]
            @ ''n fp16...'',
          ''Error: trtexec no est'' @ [CHR 0xE1] @ '' disponible. Aseg'' @ [CHR 0xFA]
            @ ''rate de que TensorRT est'' @ [CHR 0xE9] @ '' instalado y que trtexec est''
            @ [CHR 0xE9] @ '' en tu PATH.'']
   \<and> result_of (convert_onnx_to_engine world_no_tool (PurePath ''models/yolov8n.onnx'')
                   (PurePath ''models/yolov8n.engine'') ''fp16'') (start fs_no_engine) = Exit 1"
  by (simp add: run_defs stage_defs prog_defs call_defs world_defs path_defs Let_def)

text \<open>
  C7, amended. \<open>convert_onnx_to_engine\<close> makes each of its subprocess calls through
  \<open>subprocess.run\<close> with \<open>capture_output=True\<close> and \<open>text=True\<close>: the call returns the
  completed process with its whole standard output and standard error. Whenever the
  compilation run (the call with the three flags) answers with a non-zero return code,
  the last thing printed is \<open>Error en trtexec:\<close> followed by the captured standard error,
  and the process ends with \<open>sys.exit(1)\<close>. Whenever the version probe answers with a
  non-zero return code, the last thing printed is the fixed message that \<open>trtexec\<close> is
  not available, and the process ends with \<open>sys.exit(1)\<close>.
\<close>

theorem captured_stderr_reported_for_compilation:
  "list_all (\<lambda>call. fst (snd call) \<and> snd (snd call))
      (subprocess_calls (events_of (convert_onnx_to_engine w onnx eng prec) st))
   \<and> (Subprocess_run
         [''trtexec'', ''--onnx='' @ str_path onnx, ''--saveEngine='' @ str_path eng,
          ''--'' @ prec] c t (Inr cp)
         \<in> set (events_of (convert_onnx_to_engine w onnx eng prec) st)
       \<and> returncode cp \<noteq> 0
      \<longrightarrow> last (events_of (convert_onnx_to_engine w onnx eng prec) st)
            = Print (''Error en trtexec:'' @ [CHR 0x0A] @ stderr cp)
          \<and> result_of (convert_onnx_to_engine w onnx eng prec) st = Exit 1
          \<and> exit_status (result_of (convert_onnx_to_engine w onnx eng prec) st) \<noteq> 0)
   \<and> (Subprocess_run [''trtexec'', ''--version''] c2 t2 (Inr cp2)
         \<in> set (events_of (convert_onnx_to_engine w onnx eng prec) st)
       \<and> returncode cp2 \<noteq> 0
      \<longrightarrow> last (events_of (convert_onnx_to_engine w onnx eng prec) st)
            = Print (''Error: trtexec no est'' @ [CHR 0xE1] @ '' disponible. Aseg'' @ [CHR 0xFA]
                     @ ''rate de que TensorRT est'' @ [CHR 0xE9]
                     @ '' instalado y que trtexec est'' @ [CHR 0xE9] @ '' en tu PATH.'')
          \<and> result_of (convert_onnx_to_engine w onnx eng prec) st = Exit 1
          \<and> exit_status (result_of (convert_onnx_to_engine w onnx eng prec) st) \<noteq> 0)"
  by (auto simp: run_defs convert_onnx_to_engine_def prog_defs subprocess_run_def Let_def
      split: sum.splits prod.splits if_splits)

text \<open>
  A compilation that answers 1 with \<open>parse error\<close> on standard error, and a probe that
  answers 127.
\<close>

theorem captured_stderr_reported_for_compilation_witness:
  "Subprocess_run
       [''trtexec'', ''--onnx='' @ str_path (PurePath ''models/yolov8n.onnx''),
        ''--saveEngine='' @ str_path (PurePath ''models/yolov8n.engine''), ''--'' @ ''fp16'']
       True True (Inr \<lparr>returncode = 1, stdout = '''', stderr = ''parse error''\<rparr>)
     \<in> set (events_of (convert_onnx_to_engine world_bad_compile (PurePath ''models/yolov8n.onnx'')
                         (PurePath ''models/yolov8n.engine'') ''fp16'') (start fs_no_engine))
   \<and> returncode \<lparr>returncode = 1, stdout = '''', stderr = ''parse error''\<rparr> \<noteq> 0
   \<and> last (events_of (convert_onnx_to_engine world_bad_compile (PurePath ''models/yolov8n.onnx'')
                        (PurePath ''models/yolov8n.engine'') ''fp16'') (start fs_no_engine))
        = Print (''Error en trtexec:'' @ [CHR 0x0A] @ ''parse error'')
   \<and> result_of (convert_onnx_to_engine world_bad_compile (PurePath ''models/yolov8n.onnx'')
                   (PurePath ''models/yolov8n.engine'') ''fp16'') (start fs_no_engine) = Exit 1
   \<and> subprocess_calls
        (events_of (convert_onnx_to_engine world_bad_compile (PurePath ''models/yolov8n.onnx'')
                      (PurePath ''models/yolov8n.engine'') ''fp16'') (start fs_no_engine))
       = [([''trtexec'', ''--version''], True, True),
          ([''trtexec'', ''--onnx=models/yolov8n.onnx'', ''--saveEngine=models/yolov8n.engine'',
            ''--fp16''], True, True)]
   \<and> Subprocess_run [''trtexec'', ''--version''] True True
       (Inr \<lparr>returncode = 127, stdout = '''', stderr = ''trtexec: not found''\<rparr>)
     \<in> set (events_of (convert_onnx_to_engine world_no_tool (PurePath ''models/yolov8n.onnx'')
                         (PurePath ''models/yolov8n.engine'') ''fp16'') (start fs_no_engine))
   \<and> returncode \<lparr>returncode = 127, stdout = '''', stderr = ''trtexec: not found''\<rparr> \<noteq> 0
   \<and> last (events_of (convert_onnx_to_engine world_no_tool (PurePath ''models/yolov8n.onnx'')
                        (PurePath ''models/yolov8n.engine'') ''fp16'') (start fs_no_engine))
        = Print (''Error: trtexec no est'' @ [CHR 0xE1] @ '' disponible. Aseg'' @ [CHR 0xFA]
                 @ ''rate de que TensorRT est'' @ [CHR 0xE9]
                 @ '' instalado y que trtexec est'' @ [CHR 0xE9] @ '' en tu PATH.'')
   \<and> result_of (convert_onnx_to_engine world_no_tool (PurePath ''models/yolov8n.onnx'')
                   (PurePath ''models/yolov8n.engine'') ''fp16'') (start fs_no_engine) = Exit 1"
proof -
  have h: "Subprocess_run
       [''trtexec'', ''--onnx='' @ str_path (PurePath ''models/yolov8n.onnx''),
        ''--saveEngine='' @ str_path (PurePath ''models/yolov8n.engine''), ''--'' @ ''fp16'']
       True True (Inr \<lparr>returncode = 1, stdout = '''', stderr = ''parse error''\<rparr>)
     \<in> set (events_of (convert_onnx_to_engine world_bad_compile (PurePath ''models/yolov8n.onnx'')
                         (PurePath ''models/yolov8n.engine'') ''fp16'') (start fs_no_engine))"
    by (simp add: run_defs stage_defs prog_defs call_defs world_defs path_defs Let_def)
  have n: "returncode \<lparr>returncode = 1, stdout = '''', stderr = ''parse error''\<rparr> \<noteq> 0"
    by simp
  have s: "subprocess_calls
        (events_of (convert_onnx_to_engine world_bad_compile (PurePath ''models/yolov8n.onnx'')
                      (PurePath ''models/yolov8n.engine'') ''fp16'') (start fs_no_engine))
       = [([''trtexec'', ''--version''], True, True),
          ([''trtexec'', ''--onnx=models/yolov8n.onnx'', ''--saveEngine=models/yolov8n.engine'',
            ''--fp16''], True, True)]"
    by (simp add: run_defs stage_defs prog_defs call_defs world_defs path_defs Let_def)
  have h2: "Subprocess_run [''trtexec'', ''--version''] True True
       (Inr \<lparr>returncode = 127, stdout = '''', stderr = ''trtexec: not found''\<rparr>)
     \<in> set (events_of (convert_onnx_to_engine world_no_tool (PurePath ''models/yolov8n.onnx'')
                         (PurePath ''models/yolov8n.engine'') ''fp16'') (start fs_no_engine))"
    by (simp add: run_defs stage_defs prog_defs call_defs world_defs path_defs Let_def)
  have n2: "returncode \<lparr>returncode = 127, stdout = '''', stderr = ''trtexec: not found''\<rparr> \<noteq> 0"
    by simp
  from h n s h2 n2
    captured_stderr_reported_for_compilation
      [of world_bad_compile "PurePath ''models/yolov8n.onnx''" "PurePath ''models/yolov8n.engine''"
        "''fp16''" "start fs_no_engine" True True
        "\<lparr>returncode = 1, stdout = '''', stderr = ''parse error''\<rparr>"]
    captured_stderr_reported_for_compilation
      [of world_no_tool "PurePath ''models/yolov8n.onnx''" "PurePath ''models/yolov8n.engine''"
        "''fp16''" "start fs_no_engine" _ _ _ True True
        "\<lparr>returncode = 127, stdout = '''', stderr = ''trtexec: not found''\<rparr>"]
  show ?thesis
    by simp
qed

section \<open>The converter\<close>

subsection \<open>Both ways of failing end the process\<close>

text \<open>
  C5. In every invocation of \<open>export_to_onnx\<close>: when the export call raises, the process
  ends with \<open>sys.exit(1)\<close>; when the export call returns and nothing is at the expected
  output \<open>yolov8n.onnx\<close> afterwards, the process ends with \<open>sys.exit(1)\<close> as well;
  and whenever the function returns, something is at the interchange-artifact path it
  was given. The function never lets an exception escape: it returns or exits with 1.
\<close>

theorem converter_failure_modes:
  "(Model_export m kw (Inl e) \<in> set (events_of (export_to_onnx w pt onnx) st)
      \<longrightarrow> result_of (export_to_onnx w pt onnx) st = Exit 1
          \<and> exit_status (result_of (export_to_onnx w pt onnx) st) \<noteq> 0)
   \<and> (Model_export m kw (Inr (out, f)) \<in> set (events_of (export_to_onnx w pt onnx) st)
        \<and> f (PurePath ''yolov8n.onnx'') = None
      \<longrightarrow> result_of (export_to_onnx w pt onnx) st = Exit 1
          \<and> exit_status (result_of (export_to_onnx w pt onnx) st) \<noteq> 0)
   \<and> (result_of (export_to_onnx w pt onnx) st = Normal ()
      \<longrightarrow> fs_after (export_to_onnx w pt onnx) st onnx \<noteq> None)
   \<and> (result_of (export_to_onnx w pt onnx) st = Normal ()
        \<or> result_of (export_to_onnx w pt onnx) st = Exit 1)"
  by (auto simp: run_defs export_to_onnx_def prog_defs call_defs Let_def rename_fs_def
      split: sum.splits prod.splits if_splits option.splits)

text \<open>
  The three cases: an export that raises, an export that writes elsewhere, and an export
  that writes \<open>yolov8n.onnx\<close>.
\<close>

theorem converter_failure_modes_witness:
  "Model_export \<lparr>device = ''cuda:0'', weights = ''w''\<rparr>
       \<lparr>format = ''onnx'', simplify = True, opset = 14, verbose = False\<rparr> (Inl ''export failed'')
     \<in> set (events_of (export_to_onnx world_export_raises (PurePath ''models/yolov8n.pt'')
                         (PurePath ''models/yolov8n.onnx'')) (start fs_empty_pt))
   \<and> result_of (export_to_onnx world_export_raises (PurePath ''models/yolov8n.pt'')
                   (PurePath ''models/yolov8n.onnx'')) (start fs_empty_pt) = Exit 1
   \<and> Model_export \<lparr>device = ''cuda:0'', weights = ''w''\<rparr>
       \<lparr>format = ''onnx'', simplify = True, opset = 14, verbose = False\<rparr>
       (Inr (''yolov8s.onnx'', fs_empty_pt(PurePath ''yolov8s.onnx'' \<mapsto> File ''graph'')))
     \<in> set (events_of (export_to_onnx world_export_elsewhere (PurePath ''models/yolov8n.pt'')
                         (PurePath ''models/yolov8n.onnx'')) (start fs_empty_pt))
   \<and> (fs_empty_pt(PurePath ''yolov8s.onnx'' \<mapsto> File ''graph'')) (PurePath ''yolov8n.onnx'') = None
   \<and> result_of (export_to_onnx world_export_elsewhere (PurePath ''models/yolov8n.pt'')
                   (PurePath ''models/yolov8n.onnx'')) (start fs_empty_pt) = Exit 1
   \<and> result_of (export_to_onnx world_ok (PurePath ''models/yolov8n.pt'')
                   (PurePath ''models/yolov8n.onnx'')) (start fs_empty_pt) = Normal ()
   \<and> fs_after (export_to_onnx world_ok (PurePath ''models/yolov8n.pt'')
                  (PurePath ''models/yolov8n.onnx'')) (start fs_empty_pt)
        (PurePath ''models/yolov8n.onnx'') \<noteq> None"
proof -
  have a: "Model_export \<lparr>device = ''cuda:0'', weights = ''w''\<rparr>
       \<lparr>format = ''onnx'', simplify = True, opset = 14, verbose = False\<rparr> (Inl ''export failed'')
     \<in> set (events_of (export_to_onnx world_export_raises (PurePath ''models/yolov8n.pt'')
                         (PurePath ''models/yolov8n.onnx'')) (start fs_empty_pt))"
    by (simp add: run_defs stage_defs prog_defs call_defs world_defs path_defs Let_def
        fs_empty_pt_def)
  have b: "Model_export \<lparr>device = ''cuda:0'', weights = ''w''\<rparr>
       \<lparr>format = ''onnx'', simplify = True, opset = 14, verbose = False\<rparr>
       (Inr (''yolov8s.onnx'', fs_empty_pt(PurePath ''yolov8s.onnx'' \<mapsto> File ''graph'')))
     \<in> set (events_of (export_to_onnx world_export_elsewhere (PurePath ''models/yolov8n.pt'')
                         (PurePath ''models/yolov8n.onnx'')) (start fs_empty_pt))"
    by (simp add: run_defs stage_defs prog_defs call_defs world_defs path_defs Let_def
        fs_empty_pt_def)
  have c: "(fs_empty_pt(PurePath ''yolov8s.onnx'' \<mapsto> File ''graph'')) (PurePath ''yolov8n.onnx'') = None"
    by (simp add: path_defs fs_empty_pt_def)
  have d: "result_of (export_to_onnx world_ok (PurePath ''models/yolov8n.pt'')
                   (PurePath ''models/yolov8n.onnx'')) (start fs_empty_pt) = Normal ()"
    by (simp add: run_defs stage_defs prog_defs call_defs world_defs path_defs Let_def
        fs_empty_pt_def rename_fs_def)
  from a b c d
    converter_failure_modes [of "\<lparr>device = ''cuda:0'', weights = ''w''\<rparr>"
      "\<lparr>format = ''onnx'', simplify = True, opset = 14, verbose = False\<rparr>" "''export failed''"
      world_export_raises "PurePath ''models/yolov8n.pt''" "PurePath ''models/yolov8n.onnx''"
      "start fs_empty_pt"]
    converter_failure_modes [of "\<lparr>device = ''cuda:0'', weights = ''w''\<rparr>"
      "\<lparr>format = ''onnx'', simplify = True, opset = 14, verbose = False\<rparr>" _
      world_export_elsewhere "PurePath ''models/yolov8n.pt''" "PurePath ''models/yolov8n.onnx''"
      "start fs_empty_pt" "''yolov8s.onnx''"
      "fs_empty_pt(PurePath ''yolov8s.onnx'' \<mapsto> File ''graph'')"]
    converter_failure_modes [of _ _ _
      world_ok "PurePath ''models/yolov8n.pt''" "PurePath ''models/yolov8n.onnx''"
      "start fs_empty_pt"]
  show ?thesis
    by simp
qed

subsection \<open>The exporter's output is looked for under one fixed name\<close>

text \<open>
  C6 as stated has the converter exit non-zero for every model whose exporter-chosen
  output name differs from \<open>yolov8n.onnx\<close>. That depends on what the working directory
  holds: with a \<open>yolov8n.onnx\<close> left there earlier, an export that writes
  \<open>yolov8s.onnx\<close> is followed by a successful existence check, the old file is moved to
  the canonical path and the converter returns normally.
\<close>

theorem stale_output_is_relocated:
  "PurePath ''yolov8s.onnx'' \<noteq> PurePath ''yolov8n.onnx''
   \<and> Model_export \<lparr>device = ''cuda:0'', weights = ''w''\<rparr>
       \<lparr>format = ''onnx'', simplify = True, opset = 14, verbose = False\<rparr>
       (Inr (''yolov8s.onnx'', fs_stale(PurePath ''yolov8s.onnx'' \<mapsto> File ''graph'')))
     \<in> set (events_of (export_to_onnx world_export_elsewhere (PurePath ''models/yolov8s.pt'')
                         (PurePath ''models/yolov8s.onnx'')) (start fs_stale))
   \<and> result_of (export_to_onnx world_export_elsewhere (PurePath ''models/yolov8s.pt'')
                   (PurePath ''models/yolov8s.onnx'')) (start fs_stale) = Normal ()
   \<and> fs_after (export_to_onnx world_export_elsewhere (PurePath ''models/yolov8s.pt'')
                  (PurePath ''models/yolov8s.onnx'')) (start fs_stale)
        (PurePath ''models/yolov8s.onnx'') = Some (File ''stale'')"
  by (simp add: run_defs stage_defs prog_defs call_defs world_defs path_defs Let_def
      fs_stale_def rename_fs_def)

text \<open>
  C6, amended. \<open>export_to_onnx\<close> relocates from the fixed path \<open>yolov8n.onnx\<close> of the
  working directory, whatever serialized-model path it was given: every rename it makes
  has that source and the given interchange-artifact path as target. When the export
  succeeds and nothing is at \<open>yolov8n.onnx\<close> afterwards (as for a model whose output
  goes under another name into a directory that holds no \<open>yolov8n.onnx\<close>), no rename
  is made and the process ends with \<open>sys.exit(1)\<close>. When the function returns after a
  successful export, the canonical path holds what was at \<open>yolov8n.onnx\<close>.
\<close>

theorem relocation_from_literal_path:
  "(Rename a b x \<in> set (events_of (export_to_onnx w pt onnx) st)
      \<longrightarrow> a = Path '''' [''yolov8n.onnx''] \<and> b = onnx)
   \<and> (Model_export m kw (Inr (out, f)) \<in> set (events_of (export_to_onnx w pt onnx) st)
        \<and> f (Path '''' [''yolov8n.onnx'']) = None
      \<longrightarrow> result_of (export_to_onnx w pt onnx) st = Exit 1
          \<and> exit_status (result_of (export_to_onnx w pt onnx) st) \<noteq> 0
          \<and> renames (events_of (export_to_onnx w pt onnx) st) = [])
   \<and> (Model_export m kw (Inr (out, f)) \<in> set (events_of (export_to_onnx w pt onnx) st)
        \<and> result_of (export_to_onnx w pt onnx) st = Normal ()
      \<longrightarrow> f (Path '''' [''yolov8n.onnx'']) \<noteq> None
          \<and> fs_after (export_to_onnx w pt onnx) st onnx = f (Path '''' [''yolov8n.onnx'']))"
  by (auto simp: run_defs export_to_onnx_def prog_defs call_defs Let_def rename_fs_def main_paths
      split: sum.splits prod.splits if_splits option.splits)

text \<open>The rename, the failing check and the successful relocation, each in a run.\<close>

theorem relocation_from_literal_path_witness:
  "Rename (Path '''' [''yolov8n.onnx'']) (PurePath ''models/yolov8s.onnx'') None
     \<in> set (events_of (export_to_onnx world_export_elsewhere (PurePath ''models/yolov8s.pt'')
                         (PurePath ''models/yolov8s.onnx'')) (start fs_stale))
   \<and> Model_export \<lparr>device = ''cuda:0'', weights = ''w''\<rparr>
       \<lparr>format = ''onnx'', simplify = True, opset = 14, verbose = False\<rparr>
       (Inr (''yolov8s.onnx'', fs_empty_pt(PurePath ''yolov8s.onnx'' \<mapsto> File ''graph'')))
     \<in> set (events_of (export_to_onnx world_export_elsewhere (PurePath ''models/yolov8n.pt'')
                         (PurePath ''models/yolov8n.onnx'')) (start fs_empty_pt))
   \<and> (fs_empty_pt(PurePath ''yolov8s.onnx'' \<mapsto> File ''graph'')) (Path '''' [''yolov8n.onnx'']) = None
   \<and> result_of (export_to_onnx world_export_elsewhere (PurePath ''models/yolov8n.pt'')
                   (PurePath ''models/yolov8n.onnx'')) (start fs_empty_pt) = Exit 1
   \<and> Model_export \<lparr>device = ''cuda:0'', weights = ''w''\<rparr>
       \<lparr>format = ''onnx'', simplify = True, opset = 14, verbose = False\<rparr>
       (Inr (''yolov8n.onnx'', fs_empty_pt(PurePath ''yolov8n.onnx'' \<mapsto> File ''graph'')))
     \<in> set (events_of (export_to_onnx world_ok (PurePath ''models/yolov8n.pt'')
                         (PurePath ''models/yolov8n.onnx'')) (start fs_empty_pt))
   \<and> result_of (export_to_onnx world_ok (PurePath ''models/yolov8n.pt'')
                   (PurePath ''models/yolov8n.onnx'')) (start fs_empty_pt) = Normal ()
   \<and> fs_after (export_to_onnx world_ok (PurePath ''models/yolov8n.pt'')
                  (PurePath ''models/yolov8n.onnx'')) (start fs_empty_pt)
        (PurePath ''models/yolov8n.onnx'') = Some (File ''graph'')"
proof -
  have a: "Rename (Path '''' [''yolov8n.onnx'']) (PurePath ''models/yolov8s.onnx'') None
     \<in> set (events_of (export_to_onnx world_export_elsewhere (PurePath ''models/yolov8s.pt'')
                         (PurePath ''models/yolov8s.onnx'')) (start fs_stale))"
    by (simp add: run_defs stage_defs prog_defs call_defs world_defs path_defs Let_def
        fs_stale_def rename_fs_def)
  have b: "Model_export \<lparr>device = ''cuda:0'', weights = ''w''\<rparr>
       \<lparr>format = ''onnx'', simplify = True, opset = 14, verbose = False\<rparr>
       (Inr (''yolov8s.onnx'', fs_empty_pt(PurePath ''yolov8s.onnx'' \<mapsto> File ''graph'')))
     \<in> set (events_of (export_to_onnx world_export_elsewhere (PurePath ''models/yolov8n.pt'')
                         (PurePath ''models/yolov8n.onnx'')) (start fs_empty_pt))"
    by (simp add: run_defs stage_defs prog_defs call_defs world_defs path_defs Let_def
        fs_empty_pt_def)
  have c: "(fs_empty_pt(PurePath ''yolov8s.onnx'' \<mapsto> File ''graph'')) (Path '''' [''yolov8n.onnx'']) = None"
    by (simp add: path_defs fs_empty_pt_def)
  have d: "Model_export \<lparr>device = ''cuda:0'', weights = ''w''\<rparr>
       \<lparr>format = ''onnx'', simplify = True, opset = 14, verbose = False\<rparr>
       (Inr (''yolov8n.onnx'', fs_empty_pt(PurePath ''yolov8n.onnx'' \<mapsto> File ''graph'')))
     \<in> set (events_of (export_to_onnx world_ok (PurePath ''models/yolov8n.pt'')
                         (PurePath ''models/yolov8n.onnx'')) (start fs_empty_pt))"
    by (simp add: run_defs stage_defs prog_defs call_defs world_defs path_defs Let_def
        fs_empty_pt_def rename_fs_def)
  have e: "result_of (export_to_onnx world_ok (PurePath ''models/yolov8n.pt'')
                   (PurePath ''models/yolov8n.onnx'')) (start fs_empty_pt) = Normal ()"
    by (simp add: run_defs stage_defs prog_defs call_defs world_defs path_defs Let_def
        fs_empty_pt_def rename_fs_def)
  have g: "(fs_empty_pt(PurePath ''yolov8n.onnx'' \<mapsto> File ''graph'')) (Path '''' [''yolov8n.onnx''])
             = Some (File ''graph'')"
    by (simp add: path_defs)
  from a b c d e g
    relocation_from_literal_path [of "Path '''' [''yolov8n.onnx'']" "PurePath ''models/yolov8s.onnx''"
      None world_export_elsewhere "PurePath ''models/yolov8s.pt''" "PurePath ''models/yolov8s.onnx''"
      "start fs_stale"]
    relocation_from_literal_path [of _ _ _
      world_export_elsewhere "PurePath ''models/yolov8n.pt''" "PurePath ''models/yolov8n.onnx''"
      "start fs_empty_pt" "\<lparr>device = ''cuda:0'', weights = ''w''\<rparr>"
      "\<lparr>format = ''onnx'', simplify = True, opset = 14, verbose = False\<rparr>" "''yolov8s.onnx''"
      "fs_empty_pt(PurePath ''yolov8s.onnx'' \<mapsto> File ''graph'')"]
    relocation_from_literal_path [of _ _ _
      world_ok "PurePath ''models/yolov8n.pt''" "PurePath ''models/yolov8n.onnx''"
      "start fs_empty_pt" "\<lparr>device = ''cuda:0'', weights = ''w''\<rparr>"
      "\<lparr>format = ''onnx'', simplify = True, opset = 14, verbose = False\<rparr>" "''yolov8n.onnx''"
      "fs_empty_pt(PurePath ''yolov8n.onnx'' \<mapsto> File ''graph'')"]
  show ?thesis
    by simp
qed

subsection \<open>The export call's configuration\<close>

text \<open>
  C9. Every export call, whatever paths \<open>export_to_onnx\<close> was given and whatever model
  name and directory the controller runs with, is made with the same keyword arguments:
  \<open>format="onnx"\<close>, \<open>simplify=True\<close>, \<open>opset=14\<close>, \<open>verbose=False\<close>. An invocation of the
  converter makes at most one export call.
\<close>

theorem export_configuration_fixed:
  "(Model_export m kw x \<in> set (events_of (export_to_onnx w pt onnx) st)
      \<longrightarrow> kw = \<lparr>format = ''onnx'', simplify = True, opset = 14, verbose = False\<rparr>)
   \<and> (Model_export m2 kw2 x2 \<in> set (events_of (main_on w n d) st2)
      \<longrightarrow> kw2 = \<lparr>format = ''onnx'', simplify = True, opset = 14, verbose = False\<rparr>)
   \<and> length (export_configs (events_of (export_to_onnx w pt onnx) st)) \<le> 1"
proof -
  have 1: "kw = \<lparr>format = ''onnx'', simplify = True, opset = 14, verbose = False\<rparr>"
    if "Model_export m kw x \<in> set (events_of (export_to_onnx w pt onnx) st)"
  proof -
    obtain r s where run: "export_to_onnx w pt onnx st = (r, s)"
      by (cases "export_to_onnx w pt onnx st")
    from export_to_onnx_trace [OF run] in_export_configs [OF that] show ?thesis
      by (auto simp: events_of_def run fixed_kwargs_def)
  qed
  have 2: "kw2 = \<lparr>format = ''onnx'', simplify = True, opset = 14, verbose = False\<rparr>"
    if "Model_export m2 kw2 x2 \<in> set (events_of (main_on w n d) st2)"
    using in_export_configs [OF that] main_on_events_ok [of n d w st2]
    by (auto simp: stage_events_ok_def fixed_kwargs_def)
  have 3: "length (export_configs (events_of (export_to_onnx w pt onnx) st)) \<le> 1"
    by (auto simp: run_defs export_to_onnx_def prog_defs call_defs Let_def
        split: sum.splits prod.splits if_splits option.splits)
  from 1 2 3 show ?thesis by blast
qed

text \<open>The export call of a run in which the library loads the model.\<close>

theorem export_configuration_fixed_witness:
  "Model_export \<lparr>device = ''cuda:0'', weights = ''w''\<rparr>
       \<lparr>format = ''onnx'', simplify = True, opset = 14, verbose = False\<rparr>
       (Inr (''yolov8n.onnx'', fs_empty_pt(PurePath ''yolov8n.onnx'' \<mapsto> File ''graph'')))
     \<in> set (events_of (export_to_onnx world_ok (PurePath ''models/yolov8n.pt'')
                         (PurePath ''models/yolov8n.onnx'')) (start fs_empty_pt))
   \<and> Model_export \<lparr>device = ''cuda:0'', weights = ''w''\<rparr>
       \<lparr>format = ''onnx'', simplify = True, opset = 14, verbose = False\<rparr>
       (Inr (''yolov8n.onnx'', fs_empty_pt(PurePath ''yolov8n.onnx'' \<mapsto> File ''graph'')))
     \<in> set (events_of (main world_ok) (start fs_empty_pt))
   \<and> export_configs (events_of (export_to_onnx world_ok (PurePath ''models/yolov8n.pt'')
                         (PurePath ''models/yolov8n.onnx'')) (start fs_empty_pt))
       = [\<lparr>format = ''onnx'', simplify = True, opset = 14, verbose = False\<rparr>]"
proof -
  have a: "Model_export \<lparr>device = ''cuda:0'', weights = ''w''\<rparr>
       \<lparr>format = ''onnx'', simplify = True, opset = 14, verbose = False\<rparr>
       (Inr (''yolov8n.onnx'', fs_empty_pt(PurePath ''yolov8n.onnx'' \<mapsto> File ''graph'')))
     \<in> set (events_of (export_to_onnx world_ok (PurePath ''models/yolov8n.pt'')
                         (PurePath ''models/yolov8n.onnx'')) (start fs_empty_pt))"
    by (simp add: run_defs stage_defs prog_defs call_defs world_defs path_defs Let_def
        fs_empty_pt_def rename_fs_def)
  have b: "Model_export \<lparr>device = ''cuda:0'', weights = ''w''\<rparr>
       \<lparr>format = ''onnx'', simplify = True, opset = 14, verbose = False\<rparr>
       (Inr (''yolov8n.onnx'', fs_empty_pt(PurePath ''yolov8n.onnx'' \<mapsto> File ''graph'')))
     \<in> set (events_of (main_on world_ok ''yolov8n'' (PurePath ''./models'')) (start fs_empty_pt))"
    by (simp add: run_defs main_on_def stage_defs prog_defs call_defs world_defs
      fs_empty_pt_def path_defs Let_def rename_fs_def)
  have c: "export_configs (events_of (export_to_onnx world_ok (PurePath ''models/yolov8n.pt'')
                         (PurePath ''models/yolov8n.onnx'')) (start fs_empty_pt))
       = [\<lparr>format = ''onnx'', simplify = True, opset = 14, verbose = False\<rparr>]"
    by (simp add: run_defs stage_defs prog_defs call_defs world_defs path_defs Let_def
        fs_empty_pt_def rename_fs_def)
  from a b c
    export_configuration_fixed [of "\<lparr>device = ''cuda:0'', weights = ''w''\<rparr>"
      "\<lparr>format = ''onnx'', simplify = True, opset = 14, verbose = False\<rparr>"
      "Inr (''yolov8n.onnx'', fs_empty_pt(PurePath ''yolov8n.onnx'' \<mapsto> File ''graph''))"
      world_ok "PurePath ''models/yolov8n.pt''" "PurePath ''models/yolov8n.onnx''"
      "start fs_empty_pt"
      "\<lparr>device = ''cuda:0'', weights = ''w''\<rparr>"
      "\<lparr>format = ''onnx'', simplify = True, opset = 14, verbose = False\<rparr>"
      "Inr (''yolov8n.onnx'', fs_empty_pt(PurePath ''yolov8n.onnx'' \<mapsto> File ''graph''))"
      "''yolov8n''" "PurePath ''./models''" "start fs_empty_pt"]
  show ?thesis
    by (simp add: main_def)
qed

section \<open>The acquirer\<close>

text \<open>
  C10. Whenever \<open>download_model\<close> returns, its calls were, in this order: \<open>YOLO(name)\<close>,
  \<open>model.to('cpu')\<close>, \<open>model.save(path)\<close>. The model that is saved is the one that was
  moved, its device is \<open>cpu\<close>, and a file is at the returned path afterwards.
\<close>

theorem cpu_before_save:
  assumes "result_of (download_model w n d) st = Normal p"
  shows "\<exists>m0 bytes.
           events_of (download_model w n d) st =
             [Enter_download_model n d (fs st),
              Print (''Descargando el modelo '' @ n @ ''...''),
              YOLO_new n (Inr m0),
              Model_to m0 ''cpu'' None,
              Model_save (m0\<lparr>device := ''cpu''\<rparr>) p None,
              Print (''Modelo descargado y guardado en '' @ str_path p)]
         \<and> device (m0\<lparr>device := ''cpu''\<rparr>) = ''cpu''
         \<and> p = joinpath d (n @ ''.pt'')
         \<and> fs_after (download_model w n d) st p = Some (File bytes)"
  using assms
  by (auto simp: run_defs download_model_def prog_defs call_defs Let_def
      split: sum.splits prod.splits if_splits option.splits)

text \<open>A download from a world that loads the model on \<open>cuda:0\<close>.\<close>

theorem cpu_before_save_witness:
  "result_of (download_model world_ok ''yolov8n'' (PurePath ''./models'')) (start fs_fresh)
     = Normal (PurePath ''models/yolov8n.pt'')
   \<and> YOLO_new ''yolov8n'' (Inr \<lparr>device = ''cuda:0'', weights = ''w''\<rparr>)
     \<in> set (events_of (download_model world_ok ''yolov8n'' (PurePath ''./models''))
              (start fs_fresh))
   \<and> saved_paths (events_of (download_model world_ok ''yolov8n'' (PurePath ''./models''))
                    (start fs_fresh)) = [PurePath ''models/yolov8n.pt'']
   \<and> (\<exists>m0 bytes.
         events_of (download_model world_ok ''yolov8n'' (PurePath ''./models'')) (start fs_fresh) =
             [Enter_download_model ''yolov8n'' (PurePath ''./models'') (fs (start fs_fresh)),
              Print (''Descargando el modelo '' @ ''yolov8n'' @ ''...''),
              YOLO_new ''yolov8n'' (Inr m0),
              Model_to m0 ''cpu'' None,
              Model_save (m0\<lparr>device := ''cpu''\<rparr>) (PurePath ''models/yolov8n.pt'') None,
              Print (''Modelo descargado y guardado en '' @ str_path (PurePath ''models/yolov8n.pt''))]
         \<and> fs_after (download_model world_ok ''yolov8n'' (PurePath ''./models'')) (start fs_fresh)
              (PurePath ''models/yolov8n.pt'') = Some (File bytes))"
proof -
  have h: "result_of (download_model world_ok ''yolov8n'' (PurePath ''./models'')) (start fs_fresh)
     = Normal (PurePath ''models/yolov8n.pt'')"
    by (simp add: run_defs stage_defs prog_defs call_defs world_defs
      fs_fresh_def path_defs Let_def)
  have y: "YOLO_new ''yolov8n'' (Inr \<lparr>device = ''cuda:0'', weights = ''w''\<rparr>)
     \<in> set (events_of (download_model world_ok ''yolov8n'' (PurePath ''./models''))
              (start fs_fresh))"
    by (simp add: run_defs stage_defs prog_defs call_defs world_defs
      fs_fresh_def path_defs Let_def)
  have s: "saved_paths (events_of (download_model world_ok ''yolov8n'' (PurePath ''./models''))
                    (start fs_fresh)) = [PurePath ''models/yolov8n.pt'']"
    by (simp add: run_defs stage_defs prog_defs call_defs world_defs
      fs_fresh_def path_defs Let_def)
  from cpu_before_save [OF h] h y s show ?thesis
    by blast
qed

end
